theory Spec2Isabelle
  imports Main
begin

section \<open>Python values read from the manifest\<close>

text \<open>
  A Python string is a list of code points. HOL's \<^typ>\<open>char\<close> has 256 values, so a code
  point is either one of these (\<open>Low\<close>) or a higher one (\<open>High n\<close> is the code point
  \<open>256 + n\<close>); a lone surrogate such as U+D800, which a JSON escape can produce, is
  \<open>High 55040\<close>. \<open>lit\<close> embeds the texts the program itself contains.
\<close>

datatype codepoint = Low char | High nat

type_synonym pystr = "codepoint list"

definition lit :: "string \<Rightarrow> pystr" where
  "lit s = map Low s"

fun is_ascii :: "codepoint \<Rightarrow> bool" where
  "is_ascii (Low c) = (\<not> digit7 c)"
| "is_ascii (High n) = False"

text \<open>
  Whether a text stream can encode a string: every codec encodes ASCII; which other code
  points it encodes is the predicate \<open>enc\<close>. UTF-8 encodes everything but surrogates.
\<close>

definition can_encode :: "(codepoint \<Rightarrow> bool) \<Rightarrow> pystr \<Rightarrow> bool" where
  "can_encode enc s = list_all (\<lambda>c. is_ascii c \<or> enc c) s"

fun utf8_encodes :: "codepoint \<Rightarrow> bool" where
  "utf8_encodes (Low c) = True"
| "utf8_encodes (High n) = (n < 55040 \<or> 57087 < n)"

text \<open>
  \<^verbatim>\<open>json.load\<close> turns the manifest into Python objects: \<^verbatim>\<open>None\<close>, \<^verbatim>\<open>bool\<close>, \<^verbatim>\<open>int\<close>,
  \<^verbatim>\<open>float\<close>, \<^verbatim>\<open>str\<close>, \<^verbatim>\<open>list\<close> and \<^verbatim>\<open>dict\<close>. A float is kept as its \<^verbatim>\<open>repr\<close> (the
  program only tests it for zero and formats it), a dict as the list of its items in
  insertion order, looked up with \<open>map_of\<close>.
\<close>

datatype json =
    JNull
  | JBool bool
  | JInt int
  | JFloat string
  | JStr pystr
  | JArr "json list"
  | JObj "(pystr \<times> json) list"

text \<open>
  The exceptions a run can meet. \<^verbatim>\<open>UnicodeEncodeError\<close> is a subclass of
  \<^verbatim>\<open>ValueError\<close>, \<^verbatim>\<open>IsADirectoryError\<close> (it carries the path) one of \<^verbatim>\<open>OSError\<close>.
\<close>

datatype exn =
    AttributeError pystr
  | ValueError pystr
  | TypeError pystr
  | UnicodeEncodeError pystr
  | IsADirectoryError pystr
  | OSError pystr

definition apostrophe :: pystr where
  "apostrophe = lit [CHR 0x27]"

definition quote_mark :: pystr where
  "quote_mark = lit [CHR 0x22]"

definition newline :: pystr where
  "newline = lit [CHR 0x0A]"

text \<open>\<^verbatim>\<open>not v\<close> is \<open>\<not> truthy v\<close>.\<close>

fun truthy :: "json \<Rightarrow> bool" where
  "truthy JNull = False"
| "truthy (JBool b) = b"
| "truthy (JInt i) = (i \<noteq> 0)"
| "truthy (JFloat r) = (r \<noteq> ''0.0'' \<and> r \<noteq> ''-0.0'')"
| "truthy (JStr s) = (s \<noteq> [])"
| "truthy (JArr xs) = (xs \<noteq> [])"
| "truthy (JObj d) = (d \<noteq> [])"

fun type_name :: "json \<Rightarrow> string" where
  "type_name JNull = ''NoneType''"
| "type_name (JBool b) = ''bool''"
| "type_name (JInt i) = ''int''"
| "type_name (JFloat r) = ''float''"
| "type_name (JStr s) = ''str''"
| "type_name (JArr xs) = ''list''"
| "type_name (JObj d) = ''dict''"

text \<open>\<^verbatim>\<open>d.get(k, None)\<close> on a dict: an absent key and a key bound to \<^verbatim>\<open>None\<close> both give \<^verbatim>\<open>None\<close>.\<close>

definition dict_get :: "(pystr \<times> json) list \<Rightarrow> pystr \<Rightarrow> json" where
  "dict_get d k = (case map_of d k of None \<Rightarrow> JNull | Some v \<Rightarrow> v)"

text \<open>\<^verbatim>\<open>v.get(k, None)\<close> on any object: only a dict has the method.\<close>

definition no_attribute_get :: "json \<Rightarrow> exn" where
  "no_attribute_get v =
     AttributeError (apostrophe @ lit (type_name v) @ apostrophe @ lit '' object has no attribute ''
                     @ apostrophe @ lit ''get'' @ apostrophe)"

fun py_get :: "json \<Rightarrow> pystr \<Rightarrow> exn + json" where
  "py_get (JObj d) k = Inr (dict_get d k)"
| "py_get v k = Inl (no_attribute_get v)"

text \<open>\<^verbatim>\<open>needle in hay\<close> for two strings: \<open>needle\<close> occurs as a contiguous run of \<open>hay\<close>.\<close>

fun is_prefix :: "'a list \<Rightarrow> 'a list \<Rightarrow> bool" where
  "is_prefix [] ys = True"
| "is_prefix (x # xs) [] = False"
| "is_prefix (x # xs) (y # ys) = (x = y \<and> is_prefix xs ys)"

fun is_substring :: "'a list \<Rightarrow> 'a list \<Rightarrow> bool" where
  "is_substring needle [] = (needle = [])"
| "is_substring needle (c # cs) = (is_prefix needle (c # cs) \<or> is_substring needle cs)"

text \<open>
  \<^verbatim>\<open>needle in v\<close> for a string \<open>needle\<close>: substring test on a \<^verbatim>\<open>str\<close>, membership in a
  \<^verbatim>\<open>list\<close>, key membership in a \<^verbatim>\<open>dict\<close>; every other object is not iterable.
\<close>

fun py_in :: "pystr \<Rightarrow> json \<Rightarrow> exn + bool" where
  "py_in needle (JStr s) = Inr (is_substring needle s)"
| "py_in needle (JArr xs) = Inr (JStr needle \<in> set xs)"
| "py_in needle (JObj d) = Inr (needle \<in> set (map fst d))"
| "py_in needle v =
     Inl (TypeError (lit ''argument of type '' @ apostrophe @ lit (type_name v) @ apostrophe
                     @ lit '' is not iterable''))"

text \<open>\<^verbatim>\<open>len(v)\<close> and the items a \<^verbatim>\<open>for\<close> loop draws from \<open>v\<close>.\<close>

fun py_len :: "json \<Rightarrow> exn + nat" where
  "py_len (JStr s) = Inr (length s)"
| "py_len (JArr xs) = Inr (length xs)"
| "py_len (JObj d) = Inr (length d)"
| "py_len v =
     Inl (TypeError (lit ''object of type '' @ apostrophe @ lit (type_name v) @ apostrophe
                     @ lit '' has no len()''))"

fun py_iter :: "json \<Rightarrow> json list" where
  "py_iter (JStr s) = map (\<lambda>c. JStr [c]) s"
| "py_iter (JArr xs) = xs"
| "py_iter (JObj d) = map (\<lambda>kv. JStr (fst kv)) d"
| "py_iter v = []"

subsection \<open>Formatting inside f-strings\<close>

fun show_nat :: "nat \<Rightarrow> string" where
  "show_nat n =
     (if n < 10 then [''0123456789'' ! n]
      else show_nat (n div 10) @ [''0123456789'' ! (n mod 10)])"

declare show_nat.simps [simp del]

definition show_int :: "int \<Rightarrow> string" where
  "show_int i = (if i < 0 then ''-'' @ show_nat (nat (- i)) else show_nat (nat i))"

text \<open>
  \<^verbatim>\<open>str(v)\<close>, which an f-string field applies. The rendering of a list or a dict is
  Python's own \<^verbatim>\<open>repr\<close> of the container; it is the parameter \<open>cr\<close>.
\<close>

fun py_str :: "(json \<Rightarrow> pystr) \<Rightarrow> json \<Rightarrow> pystr" where
  "py_str cr JNull = lit ''None''"
| "py_str cr (JBool b) = (if b then lit ''True'' else lit ''False'')"
| "py_str cr (JInt i) = lit (show_int i)"
| "py_str cr (JFloat r) = lit r"
| "py_str cr (JStr s) = s"
| "py_str cr (JArr xs) = cr (JArr xs)"
| "py_str cr (JObj d) = cr (JObj d)"

section \<open>The process and its surroundings\<close>

text \<open>
  What a run leaves behind: the texts its \<^verbatim>\<open>print\<close> calls wrote (one per call, without
  the line end; a call that failed leaves what it had written before the failure) and
  the files it opened for writing (path and final content, in the order they were
  opened). The temporary directory is removed when its \<^verbatim>\<open>with\<close> block is left and is
  not recorded.
\<close>

record process =
  stdout :: "pystr list"
  written :: "(pystr \<times> pystr) list"

datatype ending = Finished | SystemExit nat | Uncaught exn

text \<open>
  A call either raises or returns (\<open>attempt\<close>); a statement of the main program either
  ends the run or goes on (\<open>outcome\<close>).
\<close>

type_synonym 'a attempt = "(exn + 'a) \<times> process"

type_synonym 'a outcome = "(ending + 'a) \<times> process"

fun exit_status :: "ending \<Rightarrow> nat" where
  "exit_status Finished = 0"
| "exit_status (SystemExit n) = n"
| "exit_status (Uncaught ex) = 1"

definition uncaught :: "'a attempt \<Rightarrow> 'a outcome" where
  "uncaught r = (case r of (Inl ex, p) \<Rightarrow> (Inl (Uncaught ex), p) | (Inr a, p) \<Rightarrow> (Inr a, p))"

definition seq :: "(process \<Rightarrow> 'a outcome) \<Rightarrow> ('a \<Rightarrow> process \<Rightarrow> 'b outcome) \<Rightarrow> process \<Rightarrow> 'b outcome" where
  "seq m f p = (case m p of (Inl e, p') \<Rightarrow> (Inl e, p') | (Inr a, p') \<Rightarrow> f a p')"

datatype path_kind = Missing | RegularFile | Directory | Special

record zip_info =
  filename :: pystr
  content :: string

text \<open>
  Everything a run reads from outside: the parsed command line; what the file system
  holds at each path when the run starts (nothing, a regular file, a directory, or
  something else such as a device or a FIFO; a symbolic link counts as its target) and
  whether it refuses to open a path for writing (the message of the \<^verbatim>\<open>OSError\<close>); the
  return codes and the output of the two calls of the \<^verbatim>\<open>file\<close> utility; the entries of
  the archive; the library functions \<^verbatim>\<open>json.load\<close> (the text of a
  \<^verbatim>\<open>JSONDecodeError\<close>, or the parsed object), \<^verbatim>\<open>json.dumps\<close> with \<^verbatim>\<open>indent=4\<close>
  (its result is ASCII) and the \<^verbatim>\<open>repr\<close> of a list or dict; and the codecs of
  standard output and of files opened in text mode: the code points they encode beyond
  ASCII, and the (ASCII) message of the \<^verbatim>\<open>UnicodeEncodeError\<close> they raise for a
  text. The following steps are taken to succeed: resolving the input path, starting
  \<^verbatim>\<open>file\<close> and decoding its output as ASCII, opening the archive and extracting the
  entry, and reading the extracted file as UTF-8.
\<close>

record world =
  input_path :: pystr
  output_path :: pystr
  use_mods :: bool
  path_kind :: "pystr \<Rightarrow> path_kind"
  open_refused :: "pystr \<Rightarrow> pystr option"
  which_file :: bool
  file_input :: "int \<times> string"
  zip_filelist :: "zip_info list"
  extracted_is_file :: bool
  file_modlist :: "int \<times> string"
  json_load :: "string \<Rightarrow> pystr + json"
  json_dumps :: "json \<Rightarrow> String.literal"
  container_repr :: "json \<Rightarrow> pystr"
  stdout_encodes :: "codepoint \<Rightarrow> bool"
  stdout_error :: "pystr \<Rightarrow> String.literal"
  file_encodes :: "codepoint \<Rightarrow> bool"
  file_error :: "pystr \<Rightarrow> String.literal"

text \<open>\<^verbatim>\<open>Path.is_file\<close> and \<^verbatim>\<open>Path.exists\<close>.\<close>

definition is_file :: "world \<Rightarrow> pystr \<Rightarrow> bool" where
  "is_file w path = (path_kind w path = RegularFile)"


subsection \<open>Printing\<close>

definition MODLIST_FILENAME :: pystr where
  "MODLIST_FILENAME = lit ''modlist''"

definition RED :: pystr where
  "RED = lit (CHR 0x1B # ''[1;31m'')"

definition BLUE :: pystr where
  "BLUE = lit (CHR 0x1B # ''[1;34m'')"

definition RESET :: pystr where
  "RESET = lit (CHR 0x1B # ''[0;0m'')"

text \<open>
  \<^verbatim>\<open>print(x)\<close> writes the text and the line end, \<^verbatim>\<open>print(a, b, c)\<close> writes the three
  texts in turn with a space between them; the write of a text the stream cannot encode
  raises \<^verbatim>\<open>UnicodeEncodeError\<close> and what was written before stays written. The
  stream is taken to accept every text its codec encodes.
\<close>

definition print1 :: "world \<Rightarrow> pystr \<Rightarrow> process \<Rightarrow> unit attempt" where
  "print1 w a p =
     (if \<not> can_encode (stdout_encodes w) a
      then (Inl (UnicodeEncodeError (lit (String.explode (stdout_error w a)))), p)
      else (Inr (), p\<lparr>stdout := stdout p @ [a]\<rparr>))"

definition print3 :: "world \<Rightarrow> pystr \<Rightarrow> pystr \<Rightarrow> pystr \<Rightarrow> process \<Rightarrow> unit attempt" where
  "print3 w a b c p =
     (if \<not> can_encode (stdout_encodes w) a
      then (Inl (UnicodeEncodeError (lit (String.explode (stdout_error w a)))), p)
      else if \<not> can_encode (stdout_encodes w) b
      then (Inl (UnicodeEncodeError (lit (String.explode (stdout_error w b)))),
            p\<lparr>stdout := stdout p @ [a @ lit '' '']\<rparr>)
      else if \<not> can_encode (stdout_encodes w) c
      then (Inl (UnicodeEncodeError (lit (String.explode (stdout_error w c)))),
            p\<lparr>stdout := stdout p @ [a @ lit '' '' @ b @ lit '' '']\<rparr>)
      else (Inr (), p\<lparr>stdout := stdout p @ [a @ lit '' '' @ b @ lit '' '' @ c]\<rparr>))"

definition error :: "world \<Rightarrow> pystr \<Rightarrow> bool \<Rightarrow> process \<Rightarrow> unit outcome" where
  "error w message do_exit =
     seq (\<lambda>p. uncaught (print3 w RED (lit ''[-] '' @ message) RESET p))
       (\<lambda>_ p. if do_exit then (Inl (SystemExit 1), p) else (Inr (), p))"

definition info :: "world \<Rightarrow> pystr \<Rightarrow> process \<Rightarrow> unit outcome" where
  "info w message p = uncaught (print3 w BLUE (lit ''[*] '' @ message) RESET p)"

text \<open>
  \<^verbatim>\<open>error(message)\<close> with the default \<^verbatim>\<open>do_exit=True\<close> never returns: whatever the
  caller expected, the program ends.
\<close>

definition fatal :: "world \<Rightarrow> pystr \<Rightarrow> process \<Rightarrow> 'a outcome" where
  "fatal w message =
     seq (\<lambda>p. uncaught (print3 w RED (lit ''[-] '' @ message) RESET p))
       (\<lambda>_ p. (Inl (SystemExit 1), p))"

text \<open>\<^verbatim>\<open>if cond: error(message)\<close>\<close>

definition fail_if :: "world \<Rightarrow> bool \<Rightarrow> pystr \<Rightarrow> process \<Rightarrow> unit outcome" where
  "fail_if w cond message p = (if cond then fatal w message p else (Inr (), p))"

subsection \<open>Writing files\<close>

text \<open>
  \<^verbatim>\<open>open(path, "w")\<close> raises for a directory and wherever the file system refuses;
  otherwise the file exists and is empty. \<^verbatim>\<open>outf.write(t)\<close> appends to the file opened
  last, or raises \<^verbatim>\<open>UnicodeEncodeError\<close> and appends nothing. \<open>write_file\<close> is
  \<^verbatim>\<open>with open(path, "w") as outf: for t in texts: outf.write(t)\<close>: what was written
  before a failure stays in the file. Once a file is open, the write of a text its codec
  encodes is taken to succeed.
\<close>

definition can_open :: "world \<Rightarrow> pystr \<Rightarrow> bool" where
  "can_open w path = (path_kind w path \<noteq> Directory \<and> open_refused w path = None)"

definition py_open :: "world \<Rightarrow> pystr \<Rightarrow> process \<Rightarrow> unit attempt" where
  "py_open w path p =
     (if path_kind w path = Directory then (Inl (IsADirectoryError path), p)
      else case open_refused w path of
             Some msg \<Rightarrow> (Inl (OSError msg), p)
           | None \<Rightarrow> (Inr (), p\<lparr>written := written p @ [(path, [])]\<rparr>))"

fun append_last :: "pystr \<Rightarrow> (pystr \<times> pystr) list \<Rightarrow> (pystr \<times> pystr) list" where
  "append_last t [] = []"
| "append_last t [(path, c)] = [(path, c @ t)]"
| "append_last t (x # y # ys) = x # append_last t (y # ys)"

fun write_all :: "world \<Rightarrow> pystr list \<Rightarrow> process \<Rightarrow> unit attempt" where
  "write_all w [] p = (Inr (), p)"
| "write_all w (t # ts) p =
     (if \<not> can_encode (file_encodes w) t
      then (Inl (UnicodeEncodeError (lit (String.explode (file_error w t)))), p)
      else write_all w ts (p\<lparr>written := append_last t (written p)\<rparr>))"

definition write_file :: "world \<Rightarrow> pystr \<Rightarrow> pystr list \<Rightarrow> process \<Rightarrow> unit attempt" where
  "write_file w path texts p =
     (case py_open w path p of
        (Inl ex, p') \<Rightarrow> (Inl ex, p')
      | (Inr u, p') \<Rightarrow> write_all w texts p')"

section \<open>ModInfo\<close>

record ModInfo =
  name :: json
  author :: json
  file_id :: json
  mod_id :: json
  game :: json

text \<open>
  \<^verbatim>\<open>ModInfo.__init__\<close>: either the exception it raises or the object it builds; it
  prints the State of an entry that lacks a field.
\<close>

definition ModInfo_init :: "world \<Rightarrow> json \<Rightarrow> process \<Rightarrow> ModInfo attempt" where
  "ModInfo_init w data p =
     (case data of
        JObj d \<Rightarrow>
          (let state = dict_get d (lit ''State'') in
           if \<not> truthy state
           then (Inl (AttributeError (lit ''The entry does not contain a State object'')), p)
           else
             (case state of
                JObj s \<Rightarrow>
                  (let etype = dict_get s (lit ''$type'') in
                   if \<not> truthy etype
                   then (Inl (AttributeError (lit ''The entry does not contain a type'')), p)
                   else
                     (case py_in (lit ''NexusDownloader'') etype of
                        Inl ex \<Rightarrow> (Inl ex, p)
                      | Inr found \<Rightarrow>
                          if \<not> found
                          then (Inl (ValueError (lit ''Unsupported download type ''
                                                 @ py_str (container_repr w) etype)), p)
                          else
                            (let self = \<lparr>name = dict_get s (lit ''Name''),
                                         author = dict_get s (lit ''Author''),
                                         file_id = dict_get s (lit ''FileID''),
                                         mod_id = dict_get s (lit ''ModID''),
                                         game = dict_get s (lit ''GameName'')\<rparr>
                             in if name self = JNull \<or> author self = JNull \<or> file_id self = JNull
                                   \<or> mod_id self = JNull \<or> game self = JNull
                                then (case print1 w (py_str (container_repr w) state) p of
                                        (Inl ex, p') \<Rightarrow> (Inl ex, p')
                                      | (Inr u, p') \<Rightarrow>
                                          (Inl (AttributeError
                                                 (lit ''The entry is missing a required attribute'')), p'))
                                else (Inr self, p))))
              | _ \<Rightarrow> (Inl (no_attribute_get state), p)))
      | _ \<Rightarrow> (Inl (no_attribute_get data), p))"

definition url :: "(json \<Rightarrow> pystr) \<Rightarrow> ModInfo \<Rightarrow> pystr" where
  "url cr self =
     lit ''https://www.nexusmods.com/'' @ py_str cr (game self) @ lit ''/mods/''
       @ py_str cr (mod_id self) @ lit ''?tab=files&file_id='' @ py_str cr (file_id self)"

definition mod_url :: "(json \<Rightarrow> pystr) \<Rightarrow> ModInfo \<Rightarrow> pystr" where
  "mod_url cr self =
     lit ''https://www.nexusmods.com/'' @ py_str cr (game self) @ lit ''/mods/''
       @ py_str cr (mod_id self)"

definition ModInfo_str :: "(json \<Rightarrow> pystr) \<Rightarrow> ModInfo \<Rightarrow> pystr" where
  "ModInfo_str cr self =
     quote_mark @ py_str cr (name self) @ quote_mark @ lit '' by '' @ py_str cr (author self)"

section \<open>The main program\<close>

text \<open>Lines 92 to 111: the checks before the archive is opened.\<close>

definition check_requirements :: "world \<Rightarrow> process \<Rightarrow> unit outcome" where
  "check_requirements w =
     seq (fail_if w (\<not> is_file w (input_path w)) (lit ''The input file does not exist'')) (\<lambda>_.
     seq (fail_if w (is_file w (output_path w)) (lit ''The output file does already exist'')) (\<lambda>_.
     seq (fail_if w (\<not> which_file w) (lit ''The file command is not available'')) (\<lambda>_.
     seq (info w (lit ''Trying to use file '' @ input_path w)) (\<lambda>_.
     seq (fail_if w (fst (file_input w) \<noteq> 0) (lit ''Executing the file command failed'')) (\<lambda>_.
     seq (fail_if w (\<not> is_substring ''Zip archive data'' (snd (file_input w)))
            (lit ''The input file does not look like a ZIP file'')) (\<lambda>_.
     info w (lit ''Successfully checked requirements'')))))))"

text \<open>Lines 113 to 134: the manifest is looked up by name, extracted and checked to be text.\<close>

definition extract_modlist :: "world \<Rightarrow> process \<Rightarrow> string outcome" where
  "extract_modlist w =
     (let modlist = filter (\<lambda>x. filename x = MODLIST_FILENAME) (zip_filelist w) in
      case modlist of
        [] \<Rightarrow> fatal w (lit ''The input file does not contain a modlist file'')
      | x # others \<Rightarrow>
          seq (fail_if w (length modlist > 1) (lit ''Got more than one modlist file'')) (\<lambda>_.
          seq (fail_if w (\<not> extracted_is_file w)
                 (lit ''The extracted modlist file does not exist anymore'')) (\<lambda>_.
          seq (fail_if w (fst (file_modlist w) \<noteq> 0) (lit ''Executing the file command failed'')) (\<lambda>_.
          seq (fail_if w (\<not> is_substring ''ASCII text'' (snd (file_modlist w)))
                 (lit ''The modlist file does not look like a text file'')) (\<lambda>_ p.
          (Inr (content x), p))))))"

text \<open>Lines 136 to 146: the manifest is parsed; an empty result is refused.\<close>

definition load_modlist :: "world \<Rightarrow> string \<Rightarrow> process \<Rightarrow> json outcome" where
  "load_modlist w text_in =
     (case json_load w text_in of
        Inl e \<Rightarrow> fatal w (lit ''Failed to parse modlists: '' @ e)
      | Inr data \<Rightarrow>
          seq (fail_if w (\<not> truthy data) (lit ''Failed to load data from modlist'')) (\<lambda>_.
          seq (info w (lit ''Successfully parsed modlist'')) (\<lambda>_ p.
          (Inr data, p))))"

text \<open>Lines 148 and 149: the parsed manifest is dumped into the file \<^verbatim>\<open>temp\<close>.\<close>

definition dump_temp :: "world \<Rightarrow> json \<Rightarrow> process \<Rightarrow> unit outcome" where
  "dump_temp w data p =
     uncaught (write_file w (lit ''temp'') [lit (String.explode (json_dumps w data))] p)"

text \<open>
  Lines 151 to 158: the \<^verbatim>\<open>Archives\<close> value is fetched and checked; the result is the
  sequence of entries the loop will draw from it.
\<close>

definition raise :: "exn \<Rightarrow> process \<Rightarrow> 'a outcome" where
  "raise ex p = (Inl (Uncaught ex), p)"

definition get_archives :: "world \<Rightarrow> json \<Rightarrow> process \<Rightarrow> (json list) outcome" where
  "get_archives w data =
     (case py_get data (lit ''Archives'') of
        Inl ex \<Rightarrow> raise ex
      | Inr archives \<Rightarrow>
          seq (fail_if w (archives = JNull) (lit ''Failed to get archives data from modlist'')) (\<lambda>_.
          seq (fail_if w (\<not> truthy archives) (lit ''No archives defined in modlist'')) (\<lambda>_.
          (case py_len archives of
             Inl ex \<Rightarrow> raise ex
           | Inr n \<Rightarrow>
               seq (info w (lit ''Got '' @ lit (show_nat n) @ lit '' in modlist'')) (\<lambda>_ p.
               (Inr (py_iter archives), p))))))"

text \<open>
  Lines 159 to 168: the loop over the entries. \<open>i\<close> is the index of the next entry,
  \<open>output\<close> the list built so far. \<^verbatim>\<open>except ValueError\<close> catches a \<^verbatim>\<open>ValueError\<close> and
  its subclass \<^verbatim>\<open>UnicodeEncodeError\<close>, \<^verbatim>\<open>except AttributeError\<close> an
  \<^verbatim>\<open>AttributeError\<close>; both report the entry and go on. Any other exception, and any
  exception raised while reporting, leaves the loop and the program.
\<close>

fun validate_entries ::
  "world \<Rightarrow> nat \<Rightarrow> json list \<Rightarrow> ModInfo list \<Rightarrow> process \<Rightarrow> (ModInfo list) outcome" where
  "validate_entries w i [] output p = (Inr output, p)"
| "validate_entries w i (e # es) output p =
     (case ModInfo_init w e p of
        (Inr m, p') \<Rightarrow> validate_entries w (Suc i) es (output @ [m]) p'
      | (Inl (ValueError msg), p') \<Rightarrow>
          seq (error w (lit ''Error for entry '' @ lit (show_nat i) @ lit '': '' @ msg) False)
            (\<lambda>_. validate_entries w (Suc i) es output) p'
      | (Inl (UnicodeEncodeError msg), p') \<Rightarrow>
          seq (error w (lit ''Error for entry '' @ lit (show_nat i) @ lit '': '' @ msg) False)
            (\<lambda>_. validate_entries w (Suc i) es output) p'
      | (Inl (AttributeError msg), p') \<Rightarrow>
          seq (error w (lit ''Error for entry '' @ lit (show_nat i) @ lit '': '' @ msg) False)
            (\<lambda>_. validate_entries w (Suc i) es output) p'
      | (Inl ex, p') \<Rightarrow> raise ex p')"

text \<open>Lines 170 to 175: one block per collected entry is written to the output file.\<close>

definition entry_block :: "(json \<Rightarrow> pystr) \<Rightarrow> bool \<Rightarrow> ModInfo \<Rightarrow> pystr" where
  "entry_block cr mods entry =
     (if mods
      then lit ''## '' @ apostrophe @ py_str cr (name entry) @ apostrophe @ lit '' by ''
           @ py_str cr (author entry) @ newline @ mod_url cr entry @ newline @ newline
      else lit ''## '' @ apostrophe @ py_str cr (name entry) @ apostrophe @ lit '' by ''
           @ py_str cr (author entry) @ newline @ url cr entry @ newline @ newline)"

definition write_output :: "world \<Rightarrow> ModInfo list \<Rightarrow> process \<Rightarrow> unit outcome" where
  "write_output w output p =
     uncaught (write_file w (output_path w)
                 (map (entry_block (container_repr w) (use_mods w)) output) p)"

text \<open>Lines 148 to 175: what the program does with the parsed manifest.\<close>

definition process_manifest :: "world \<Rightarrow> json \<Rightarrow> process \<Rightarrow> unit outcome" where
  "process_manifest w data =
     seq (dump_temp w data) (\<lambda>_.
     seq (get_archives w data) (\<lambda>archives.
     seq (validate_entries w 0 archives []) (\<lambda>output.
     write_output w output)))"

text \<open>Lines 136 to 175: from the text of the extracted manifest to the output file.\<close>

definition load_and_process :: "world \<Rightarrow> string \<Rightarrow> process \<Rightarrow> unit outcome" where
  "load_and_process w text_in = seq (load_modlist w text_in) (process_manifest w)"

definition main :: "world \<Rightarrow> process \<Rightarrow> unit outcome" where
  "main w =
     seq (check_requirements w) (\<lambda>_.
     seq (extract_modlist w) (\<lambda>text_in.
     load_and_process w text_in))"

text \<open>A run from an empty process: how it ended and what it left behind.\<close>

definition run :: "world \<Rightarrow> ending \<times> process" where
  "run w =
     (case main w \<lparr>stdout = [], written = []\<rparr> of
        (Inl e, p) \<Rightarrow> (e, p)
      | (Inr u, p) \<Rightarrow> (Finished, p))"

section \<open>Notions used to state the properties\<close>

text \<open>The texts a successful \<^verbatim>\<open>error(message)\<close> and \<^verbatim>\<open>info(message)\<close> print.\<close>

definition error_line :: "pystr \<Rightarrow> pystr" where
  "error_line message = RED @ lit '' '' @ (lit ''[-] '' @ message) @ lit '' '' @ RESET"

definition info_line :: "pystr \<Rightarrow> pystr" where
  "info_line message = BLUE @ lit '' '' @ (lit ''[*] '' @ message) @ lit '' '' @ RESET"

definition printed :: "pystr \<Rightarrow> process \<Rightarrow> process" where
  "printed t p = p\<lparr>stdout := stdout p @ [t]\<rparr>"

text \<open>
  The process after a file has been opened and given its content; how a statement ended,
  if it ended the run; a statement that cannot end the run with a status other than 1;
  and a process that has only opened paths that can be opened.
\<close>

definition wrote :: "pystr \<Rightarrow> pystr \<Rightarrow> process \<Rightarrow> process" where
  "wrote path file_text p = p\<lparr>written := written p @ [(path, file_text)]\<rparr>"


definition fails1 :: "'a outcome \<Rightarrow> bool" where
  "fails1 r = (case fst r of Inl e \<Rightarrow> exit_status e = 1 | Inr a \<Rightarrow> True)"



text \<open>
  The record \<^verbatim>\<open>ModInfo.__init__\<close> builds from a State dict, the entries it accepts, the
  \<^verbatim>\<open>$type\<close> value it inspects, whether the \<^verbatim>\<open>in\<close> test can be applied to that value,
  whether standard output can encode the warning for an unsupported \<^verbatim>\<open>$type\<close>, and the
  exceptions the loop catches.
\<close>

definition required_fields :: "pystr list" where
  "required_fields = [lit ''Name'', lit ''Author'', lit ''FileID'', lit ''ModID'', lit ''GameName'']"

definition state_record :: "(pystr \<times> json) list \<Rightarrow> ModInfo" where
  "state_record s =
     \<lparr>name = dict_get s (lit ''Name''), author = dict_get s (lit ''Author''),
      file_id = dict_get s (lit ''FileID''), mod_id = dict_get s (lit ''ModID''),
      game = dict_get s (lit ''GameName'')\<rparr>"

definition entry_record :: "json \<Rightarrow> ModInfo" where
  "entry_record e =
     (case e of
        JObj d \<Rightarrow> (case dict_get d (lit ''State'') of JObj s \<Rightarrow> state_record s | _ \<Rightarrow> state_record [])
      | _ \<Rightarrow> state_record [])"

definition accepts :: "json \<Rightarrow> bool" where
  "accepts e =
     (case e of
        JObj d \<Rightarrow>
          (case dict_get d (lit ''State'') of
             JObj s \<Rightarrow>
               truthy (JObj s) \<and> truthy (dict_get s (lit ''$type''))
               \<and> py_in (lit ''NexusDownloader'') (dict_get s (lit ''$type'')) = Inr True
               \<and> list_all (\<lambda>k. dict_get s k \<noteq> JNull) required_fields
           | _ \<Rightarrow> False)
      | _ \<Rightarrow> False)"

definition type_tag :: "json \<Rightarrow> json" where
  "type_tag e =
     (case e of
        JObj d \<Rightarrow> (case dict_get d (lit ''State'') of JObj s \<Rightarrow> dict_get s (lit ''$type'') | _ \<Rightarrow> JNull)
      | _ \<Rightarrow> JNull)"

fun supports_in :: "json \<Rightarrow> bool" where
  "supports_in (JStr s) = True"
| "supports_in (JArr xs) = True"
| "supports_in (JObj d) = True"
| "supports_in v = False"

definition tag_checkable :: "json \<Rightarrow> bool" where
  "tag_checkable e = (if truthy (type_tag e) then supports_in (type_tag e) else True)"

definition tag_printable :: "world \<Rightarrow> json \<Rightarrow> bool" where
  "tag_printable w e =
     (if truthy (type_tag e) \<and> py_in (lit ''NexusDownloader'') (type_tag e) = Inr False
      then can_encode (stdout_encodes w) (py_str (container_repr w) (type_tag e))
      else True)"

fun handled :: "exn \<Rightarrow> bool" where
  "handled (ValueError msg) = True"
| "handled (UnicodeEncodeError msg) = True"
| "handled (AttributeError msg) = True"
| "handled ex = False"

text \<open>The exception \<^verbatim>\<open>open(path, "w")\<close> raises where it cannot open the path.\<close>

definition open_error :: "world \<Rightarrow> pystr \<Rightarrow> exn" where
  "open_error w path =
     (if path_kind w path = Directory then IsADirectoryError path
      else case open_refused w path of Some msg \<Rightarrow> OSError msg | None \<Rightarrow> IsADirectoryError path)"

text \<open>The text an exception carries; for those the loop catches it is \<^verbatim>\<open>str(e)\<close>.\<close>

fun exn_text :: "exn \<Rightarrow> pystr" where
  "exn_text (AttributeError msg) = msg"
| "exn_text (ValueError msg) = msg"
| "exn_text (TypeError msg) = msg"
| "exn_text (UnicodeEncodeError msg) = msg"
| "exn_text (IsADirectoryError path) = path"
| "exn_text (OSError msg) = msg"

definition entry_warning :: "nat \<Rightarrow> exn \<Rightarrow> pystr" where
  "entry_warning i ex = lit ''Error for entry '' @ lit (show_nat i) @ lit '': '' @ exn_text ex"

text \<open>
  The URL as the specification writes it, from the three texts it is built of, the
  heading line of a block, and the block the specification describes.
\<close>

definition spec_url :: "bool \<Rightarrow> pystr \<Rightarrow> pystr \<Rightarrow> pystr \<Rightarrow> pystr" where
  "spec_url mods game_text mod_id_text file_id_text =
     (if mods
      then lit ''https://www.nexusmods.com/'' @ game_text @ lit ''/mods/'' @ mod_id_text
      else lit ''https://www.nexusmods.com/'' @ game_text @ lit ''/mods/'' @ mod_id_text
           @ lit ''?tab=files&file_id='' @ file_id_text)"

definition heading :: "(json \<Rightarrow> pystr) \<Rightarrow> ModInfo \<Rightarrow> pystr" where
  "heading cr m =
     lit ''## '' @ apostrophe @ py_str cr (name m) @ apostrophe @ lit '' by '' @ py_str cr (author m)
       @ newline"

definition spec_block :: "(json \<Rightarrow> pystr) \<Rightarrow> bool \<Rightarrow> ModInfo \<Rightarrow> pystr" where
  "spec_block cr mods m =
     heading cr m
       @ spec_url mods (py_str cr (game m)) (py_str cr (mod_id m)) (py_str cr (file_id m))
       @ newline @ newline"

text \<open>
  The condition for building a record in the words of claim C1: a truthy State object,
  a truthy \<^verbatim>\<open>$type\<close> that contains the marker as a substring, and the five fields
  present and not null.
\<close>

definition claimed_condition :: "json \<Rightarrow> bool" where
  "claimed_condition e =
     (case e of
        JObj d \<Rightarrow>
          (case dict_get d (lit ''State'') of
             JObj s \<Rightarrow>
               truthy (JObj s)
               \<and> (case dict_get s (lit ''$type'') of
                     JStr t \<Rightarrow> truthy (JStr t) \<and> is_substring (lit ''NexusDownloader'') t
                   | _ \<Rightarrow> False)
               \<and> list_all (\<lambda>k. dict_get s k \<noteq> JNull) required_fields
           | _ \<Rightarrow> False)
      | _ \<Rightarrow> False)"

section \<open>Worked examples\<close>

text \<open>
  An entry with the given \<^verbatim>\<open>$type\<close> and the five fields; the two entries of the
  specification's example and a second well-formed one; entries whose \<^verbatim>\<open>$type\<close> is a
  list holding the marker, a number, a boolean, and the lone surrogate U+D800; two
  entries with falsy fields; and the manifest whose \<^verbatim>\<open>Archives\<close> list holds given
  entries.
\<close>

definition nexus_entry :: "json \<Rightarrow> json \<Rightarrow> json \<Rightarrow> json \<Rightarrow> json \<Rightarrow> json \<Rightarrow> json" where
  "nexus_entry tag n a f m g =
     JObj [(lit ''State'', JObj [(lit ''$type'', tag), (lit ''Name'', n), (lit ''Author'', a),
                                (lit ''FileID'', f), (lit ''ModID'', m), (lit ''GameName'', g)])]"

definition foo_entry :: json where
  "foo_entry =
     nexus_entry (JStr (lit ''NexusDownloader, Wabbajack.Lib'')) (JStr (lit ''Foo'')) (JStr (lit ''Bar''))
       (JInt 1) (JInt 2) (JStr (lit ''skyrimspecialedition''))"

definition baz_entry :: json where
  "baz_entry =
     nexus_entry (JStr (lit ''NexusDownloader, Wabbajack.Lib'')) (JStr (lit ''Baz'')) (JStr (lit ''Qux''))
       (JInt 7) (JInt 8) (JStr (lit ''fallout4''))"

definition other_entry :: json where
  "other_entry = JObj [(lit ''State'', JObj [(lit ''$type'', JStr (lit ''OtherDownloader''))])]"

definition array_tag_entry :: json where
  "array_tag_entry =
     nexus_entry (JArr [JStr (lit ''NexusDownloader'')]) (JStr (lit ''Foo'')) (JStr (lit ''Bar''))
       (JInt 1) (JInt 2) (JStr (lit ''skyrimspecialedition''))"

definition numeric_tag_entry :: json where
  "numeric_tag_entry = JObj [(lit ''State'', JObj [(lit ''$type'', JInt 1)])]"

definition bool_tag_entry :: json where
  "bool_tag_entry = JObj [(lit ''State'', JObj [(lit ''$type'', JBool True)])]"

definition surrogate_tag_entry :: json where
  "surrogate_tag_entry = JObj [(lit ''State'', JObj [(lit ''$type'', JStr [High 55040])])]"

definition falsy_entry :: json where
  "falsy_entry =
     nexus_entry (JStr (lit ''NexusDownloader'')) (JStr []) (JStr (lit ''Bar'')) (JInt 0) (JInt 2)
       (JStr (lit ''skyrimspecialedition''))"

definition falsy_entry2 :: json where
  "falsy_entry2 =
     nexus_entry (JStr (lit ''NexusDownloader'')) (JStr (lit ''Foo'')) (JStr []) (JInt 1) (JInt 0)
       (JStr [])"

definition archives_of :: "json list \<Rightarrow> json" where
  "archives_of es = JObj [(lit ''Archives'', JArr es)]"

text \<open>
  A world in which every check passes and the manifest of the archive parses to the
  given object: the input is a regular file, no other path exists yet, nothing is
  refused, both codecs are UTF-8. Its \<^verbatim>\<open>json.dumps\<close> and container \<^verbatim>\<open>repr\<close> return
  fixed placeholder texts.
\<close>

definition world_with :: "json \<Rightarrow> world" where
  "world_with manifest =
     \<lparr>input_path = lit ''list.wabbajack'', output_path = lit ''mods.txt'', use_mods = False,
      path_kind = (\<lambda>q. if q = lit ''list.wabbajack'' then RegularFile else Missing),
      open_refused = (\<lambda>q. None),
      which_file = True,
      file_input = (0, ''list.wabbajack: Zip archive data, at least v2.0 to extract''),
      zip_filelist = [\<lparr>filename = lit ''modlist'', content = ''(manifest)''\<rparr>,
                      \<lparr>filename = lit ''modlist-image.png'', content = ''(image)''\<rparr>],
      extracted_is_file = True,
      file_modlist = (0, ''modlist: ASCII text, with very long lines''),
      json_load = (\<lambda>t. Inr manifest),
      json_dumps = (\<lambda>v. String.implode ''(dump)''),
      container_repr = (\<lambda>v. lit ''(repr)''),
      stdout_encodes = utf8_encodes,
      stdout_error = (\<lambda>t. String.implode ''utf-8 codec cannot encode character: surrogates not allowed''),
      file_encodes = utf8_encodes,
      file_error = (\<lambda>t. String.implode ''utf-8 codec cannot encode character: surrogates not allowed'')\<rparr>"

text \<open>
  A freshly started process; an archive whose entries are named almost, but not exactly,
  like the manifest; an archive with two entries named like the manifest; and worlds in
  which the output path already exists as a regular file, as a directory, and as a
  device.
\<close>

definition start :: process where
  "start = \<lparr>stdout = [], written = []\<rparr>"

definition misnamed_world :: world where
  "misnamed_world =
     (world_with JNull)\<lparr>zip_filelist :=
        [\<lparr>filename = lit ''Modlist'', content = ''(manifest)''\<rparr>,
         \<lparr>filename = lit ''MODLIST'', content = ''(manifest)''\<rparr>,
         \<lparr>filename = lit ''modlist.json'', content = ''(manifest)''\<rparr>]\<rparr>"

definition doubled_world :: world where
  "doubled_world =
     (world_with JNull)\<lparr>zip_filelist :=
        [\<lparr>filename = lit ''modlist'', content = ''(manifest)''\<rparr>,
         \<lparr>filename = lit ''readme'', content = ''(text)''\<rparr>,
         \<lparr>filename = lit ''modlist'', content = ''(other manifest)''\<rparr>]\<rparr>"


section \<open>Texts and encodings\<close>

text \<open>The substring test is the one of the \<^verbatim>\<open>in\<close> operator on strings.\<close>

lemma is_prefix_iff: "is_prefix xs ys \<longleftrightarrow> (\<exists>ss. ys = xs @ ss)"
  by (induction xs ys rule: is_prefix.induct) auto

lemma is_substring_iff: "is_substring n h \<longleftrightarrow> (\<exists>ps ss. h = ps @ n @ ss)"
proof (induction h)
  case Nil
  then show ?case by auto
next
  case (Cons c cs)
  show ?case
  proof
    assume "is_substring n (c # cs)"
    then consider "is_prefix n (c # cs)" | "is_substring n cs" by auto
    then show "\<exists>ps ss. c # cs = ps @ n @ ss"
    proof cases
      case 1
      then obtain ss where "c # cs = n @ ss" by (auto simp: is_prefix_iff)
      then have "c # cs = [] @ n @ ss" by simp
      then show ?thesis by blast
    next
      case 2
      then obtain ps ss where "cs = ps @ n @ ss" using Cons.IH by auto
      then have "c # cs = (c # ps) @ n @ ss" by simp
      then show ?thesis by blast
    qed
  next
    assume "\<exists>ps ss. c # cs = ps @ n @ ss"
    then obtain ps ss where eq: "c # cs = ps @ n @ ss" by blast
    show "is_substring n (c # cs)"
    proof (cases ps)
      case Nil
      with eq have "is_prefix n (c # cs)" by (auto simp: is_prefix_iff)
      then show ?thesis by simp
    next
      case (Cons q qs)
      with eq have "cs = qs @ n @ ss" by simp
      then have "is_substring n cs" using Cons.IH by blast
      then show ?thesis by simp
    qed
  qed
qed

lemma can_encode_Nil [simp]: "can_encode enc []"
  by (simp add: can_encode_def)

lemma can_encode_append [simp]:
  "can_encode enc (a @ b) \<longleftrightarrow> can_encode enc a \<and> can_encode enc b"
  by (simp add: can_encode_def)

lemma can_encode_lit_Nil [simp]: "can_encode enc (lit [])"
  by (simp add: can_encode_def lit_def)

lemma can_encode_lit_Cons [simp]:
  "can_encode enc (lit (c # cs)) \<longleftrightarrow> (\<not> digit7 c \<or> enc (Low c)) \<and> can_encode enc (lit cs)"
  by (simp add: can_encode_def lit_def)

lemma can_encode_ascii: "list_all (\<lambda>c. \<not> digit7 c) s \<Longrightarrow> can_encode enc (lit s)"
  by (simp add: can_encode_def lit_def list_all_iff)

lemma can_encode_explode [simp]: "can_encode enc (lit (String.explode l))"
  using String.explode[of l] by (simp add: can_encode_def lit_def list_all_iff)

lemma digits_ascii: "k < 10 \<Longrightarrow> \<not> digit7 (''0123456789'' ! k)"
proof -
  assume "k < 10"
  then have "k \<in> {0, 1, 2, 3, 4, 5, 6, 7, 8, 9}" by auto
  then show ?thesis by (auto simp: nth_Cons')
qed

lemma show_nat_ascii: "list_all (\<lambda>c. \<not> digit7 c) (show_nat n)"
proof (induction n rule: show_nat.induct)
  case (1 n)
  show ?case
  proof (cases "n < 10")
    case True
    then show ?thesis by (subst show_nat.simps) (simp add: digits_ascii)
  next
    case False
    with 1 have "list_all (\<lambda>c. \<not> digit7 c) (show_nat (n div 10))" by simp
    moreover have "\<not> digit7 (''0123456789'' ! (n mod 10))" by (rule digits_ascii) simp
    ultimately show ?thesis using False by (subst show_nat.simps) simp
  qed
qed

lemma can_encode_show_nat [simp]: "can_encode enc (lit (show_nat n))"
  by (rule can_encode_ascii) (rule show_nat_ascii)

lemma can_encode_colors [simp]:
  "can_encode enc RED" "can_encode enc BLUE" "can_encode enc RESET"
  by (simp_all add: RED_def BLUE_def RESET_def)

lemma can_encode_apostrophe [simp]: "can_encode enc apostrophe"
  by (simp add: apostrophe_def)

lemma can_encode_type_name [simp]: "can_encode enc (lit (type_name v))"
  by (cases v) simp_all

section \<open>Printing and sequencing\<close>

lemma seq_Inl: "m p = (Inl e, p') \<Longrightarrow> seq m f p = (Inl e, p')"
  by (simp add: seq_def)

lemma seq_Inr: "m p = (Inr a, p') \<Longrightarrow> seq m f p = f a p'"
  by (simp add: seq_def)


lemma info_ok:
  "can_encode (stdout_encodes w) msg \<Longrightarrow> info w msg p = (Inr (), printed (info_line msg) p)"
  by (simp add: info_def print3_def uncaught_def info_line_def printed_def)

lemma info_fails:
  "\<not> can_encode (stdout_encodes w) msg \<Longrightarrow>
   info w msg p =
     (Inl (Uncaught (UnicodeEncodeError (lit (String.explode (stdout_error w (lit ''[*] '' @ msg)))))),
      printed (BLUE @ lit '' '') p)"
  by (simp add: info_def print3_def uncaught_def printed_def)

lemma fatal_ok:
  "can_encode (stdout_encodes w) msg \<Longrightarrow>
   fatal w msg p = (Inl (SystemExit 1), printed (error_line msg) p)"
  by (simp add: fatal_def seq_def print3_def uncaught_def error_line_def printed_def)

lemma error_exit_ok:
  "can_encode (stdout_encodes w) msg \<Longrightarrow>
   error w msg True p = (Inl (SystemExit 1), printed (error_line msg) p)"
  by (simp add: error_def seq_def print3_def uncaught_def error_line_def printed_def)

lemma error_continue_ok:
  "can_encode (stdout_encodes w) msg \<Longrightarrow>
   error w msg False p = (Inr (), printed (error_line msg) p)"
  by (simp add: error_def seq_def print3_def uncaught_def error_line_def printed_def)

lemma error_continue_fails:
  "\<not> can_encode (stdout_encodes w) msg \<Longrightarrow>
   error w msg False p =
     (Inl (Uncaught (UnicodeEncodeError (lit (String.explode (stdout_error w (lit ''[-] '' @ msg)))))),
      printed (RED @ lit '' '') p)"
  by (simp add: error_def seq_def print3_def uncaught_def printed_def)

lemma written_printed [simp]: "written (printed t p) = written p"
  by (simp add: printed_def)

lemma stdout_printed [simp]: "stdout (printed t p) = stdout p @ [t]"
  by (simp add: printed_def)

section \<open>Validation of one entry\<close>

lemma dict_get_Nil: "dict_get [] k = JNull"
  by (simp add: dict_get_def)

lemma py_in_True_supports: "py_in n v = Inr b \<Longrightarrow> supports_in v"
  by (cases v) auto

lemma py_in_supports: "supports_in v \<Longrightarrow> \<exists>b. py_in n v = Inr b"
  by (cases v) auto

lemma py_in_unsupported: "\<not> supports_in v \<Longrightarrow> \<exists>msg. py_in n v = Inl (TypeError msg)"
  by (cases v) auto

lemma ModInfo_init_accepts:
  "accepts e \<Longrightarrow> ModInfo_init w e p = (Inr (entry_record e), p)"
  by (auto simp: accepts_def ModInfo_init_def entry_record_def state_record_def Let_def
      required_fields_def split: json.splits)

lemma ModInfo_init_Inr:
  "ModInfo_init w e p = (Inr m, p') \<Longrightarrow> accepts e"
  by (auto simp: accepts_def ModInfo_init_def Let_def required_fields_def no_attribute_get_def
      print1_def split: json.splits sum.splits if_splits prod.splits)

lemma ModInfo_init_iff: "(\<exists>m p'. ModInfo_init w e p = (Inr m, p')) \<longleftrightarrow> accepts e"
  using ModInfo_init_accepts ModInfo_init_Inr by blast

lemma ModInfo_init_written: "written (snd (ModInfo_init w e p)) = written p"
  by (auto simp: ModInfo_init_def Let_def print1_def split: json.splits sum.splits prod.splits)

text \<open>What a rejected entry raises, by the shape of its \<^verbatim>\<open>$type\<close>.\<close>

lemma ModInfo_init_unsupported:
  assumes "truthy (type_tag e)" and "py_in (lit ''NexusDownloader'') (type_tag e) = Inr False"
  shows "ModInfo_init w e p =
           (Inl (ValueError (lit ''Unsupported download type ''
                             @ py_str (container_repr w) (type_tag e))), p)"
  using assms
  by (auto simp: type_tag_def ModInfo_init_def Let_def dict_get_Nil split: json.splits)

lemma ModInfo_init_uncheckable:
  assumes "\<not> tag_checkable e"
  shows "\<exists>msg. ModInfo_init w e p = (Inl (TypeError msg), p)"
proof -
  from assms have t: "truthy (type_tag e)" and n: "\<not> supports_in (type_tag e)"
    by (auto simp: tag_checkable_def split: if_splits)
  from n obtain msg where "py_in (lit ''NexusDownloader'') (type_tag e) = Inl (TypeError msg)"
    using py_in_unsupported by blast
  with t show ?thesis
    by (auto simp: type_tag_def ModInfo_init_def Let_def dict_get_Nil split: json.splits)
qed

lemma ModInfo_init_rejected:
  assumes "tag_checkable e" and "ModInfo_init w e p = (Inl ex, p')"
  shows "handled ex
         \<and> (\<forall>msg. ex = ValueError msg \<longrightarrow>
               truthy (type_tag e) \<and> py_in (lit ''NexusDownloader'') (type_tag e) = Inr False
               \<and> msg = lit ''Unsupported download type '' @ py_str (container_repr w) (type_tag e))
         \<and> (\<forall>msg. ex = UnicodeEncodeError msg \<longrightarrow> (\<exists>l. msg = lit (String.explode l)))
         \<and> (\<forall>msg. ex = AttributeError msg \<longrightarrow> can_encode enc msg)"
proof (cases "truthy (type_tag e)")
  case True
  with assms(1) have "supports_in (type_tag e)" by (simp add: tag_checkable_def)
  then obtain b where "py_in (lit ''NexusDownloader'') (type_tag e) = Inr b"
    using py_in_supports by blast
  with assms(2) True show ?thesis
    by (auto simp: type_tag_def ModInfo_init_def Let_def no_attribute_get_def print1_def
        split: json.splits if_splits)
next
  case False
  with assms(2) show ?thesis
    by (auto simp: type_tag_def ModInfo_init_def Let_def no_attribute_get_def print1_def
        split: json.splits if_splits)
qed

section \<open>The validation loop\<close>

lemma validate_entries_step_Inr:
  "ModInfo_init w e p = (Inr m, p1) \<Longrightarrow>
   validate_entries w i (e # es) out p = validate_entries w (Suc i) es (out @ [m]) p1"
  by simp

lemma validate_entries_step_handled:
  assumes "ModInfo_init w e p = (Inl ex, p1)" and "handled ex"
  shows "validate_entries w i (e # es) out p =
           seq (error w (entry_warning i ex) False) (\<lambda>_. validate_entries w (Suc i) es out) p1"
  using assms by (cases ex) (simp_all add: entry_warning_def)

lemma validate_entries_step_reported:
  assumes "ModInfo_init w e p = (Inl ex, p1)" and "handled ex"
    and "can_encode (stdout_encodes w) (exn_text ex)"
  shows "validate_entries w i (e # es) out p =
           validate_entries w (Suc i) es out (printed (error_line (entry_warning i ex)) p1)"
proof -
  from assms(3) have "can_encode (stdout_encodes w) (entry_warning i ex)"
    by (simp add: entry_warning_def)
  then have "error w (entry_warning i ex) False p1
               = (Inr (), printed (error_line (entry_warning i ex)) p1)"
    by (rule error_continue_ok)
  with validate_entries_step_handled[OF assms(1,2)] show ?thesis
    by (simp add: seq_def)
qed

lemma validate_entries_step_unreported:
  assumes "ModInfo_init w e p = (Inl ex, p1)" and "handled ex"
    and "\<not> can_encode (stdout_encodes w) (exn_text ex)"
  shows "validate_entries w i (e # es) out p =
           (Inl (Uncaught (UnicodeEncodeError
                   (lit (String.explode (stdout_error w (lit ''[-] '' @ entry_warning i ex)))))),
            printed (RED @ lit '' '') p1)"
proof -
  from assms(3) have "\<not> can_encode (stdout_encodes w) (entry_warning i ex)"
    by (simp add: entry_warning_def)
  then have "error w (entry_warning i ex) False p1
               = (Inl (Uncaught (UnicodeEncodeError
                   (lit (String.explode (stdout_error w (lit ''[-] '' @ entry_warning i ex)))))),
                  printed (RED @ lit '' '') p1)"
    by (rule error_continue_fails)
  with validate_entries_step_handled[OF assms(1,2)] show ?thesis
    by (simp add: seq_def)
qed

lemma validate_entries_step_unhandled:
  "ModInfo_init w e p = (Inl ex, p1) \<Longrightarrow> \<not> handled ex \<Longrightarrow>
   validate_entries w i (e # es) out p = (Inl (Uncaught ex), p1)"
  by (cases ex) (simp_all add: raise_def)

lemma written_error [simp]: "written (snd (error w msg b p)) = written p"
  by (simp add: error_def seq_def print3_def uncaught_def)

lemma written_info [simp]: "written (snd (info w msg p)) = written p"
  by (simp add: info_def print3_def uncaught_def)

lemma written_fatal [simp]: "written (snd (fatal w msg p)) = written p"
  by (simp add: fatal_def seq_def print3_def uncaught_def)

lemma written_fail_if [simp]: "written (snd (fail_if w c msg p)) = written p"
  by (simp add: fail_if_def)

lemma validate_entries_written: "written (snd (validate_entries w i es out p)) = written p"
proof (induction es arbitrary: i out p)
  case Nil
  then show ?case by simp
next
  case (Cons e es)
  obtain r p1 where init: "ModInfo_init w e p = (r, p1)" by (cases "ModInfo_init w e p")
  have w1: "written p1 = written p" using ModInfo_init_written[of w e p] init by simp
  show ?case
  proof (cases r)
    case (Inr m)
    with init Cons.IH[of "Suc i" "out @ [m]" p1] w1 show ?thesis by simp
  next
    case (Inl ex)
    show ?thesis
    proof (cases "handled ex")
      case False
      from validate_entries_step_unhandled[OF init[unfolded Inl] False, of i es out] w1
      show ?thesis by simp
    next
      case True
      obtain r2 p2 where er: "error w (entry_warning i ex) False p1 = (r2, p2)"
        by (cases "error w (entry_warning i ex) False p1")
      have w2: "written p2 = written p1" using written_error[of w "entry_warning i ex" False p1] er by simp
      from validate_entries_step_handled[OF init[unfolded Inl] True, of i es out] er
        Cons.IH[of "Suc i" out p2] w1 w2
      show ?thesis by (cases r2) (simp_all add: seq_def)
    qed
  qed
qed

lemma validate_entries_Inr:
  "validate_entries w i es out p = (Inr ms, p') \<Longrightarrow>
   ms = out @ map entry_record (filter accepts es)"
proof (induction es arbitrary: i out p)
  case Nil
  then show ?case by simp
next
  case (Cons e es)
  obtain r p1 where init: "ModInfo_init w e p = (r, p1)" by (cases "ModInfo_init w e p")
  show ?case
  proof (cases r)
    case (Inr m)
    with init have acc: "accepts e" by (auto dest: ModInfo_init_Inr)
    with init Inr have m: "m = entry_record e" by (simp add: ModInfo_init_accepts)
    from init Inr Cons.prems
    have "validate_entries w (Suc i) es (out @ [m]) p1 = (Inr ms, p')" by simp
    from Cons.IH[OF this] acc m show ?thesis by simp
  next
    case (Inl ex)
    with init have nacc: "\<not> accepts e" by (auto simp: ModInfo_init_accepts)
    show ?thesis
    proof (cases "handled ex")
      case False
      from validate_entries_step_unhandled[OF init[unfolded Inl] False, of i es out] Cons.prems
      show ?thesis by simp
    next
      case True
      obtain r2 p2 where er: "error w (entry_warning i ex) False p1 = (r2, p2)"
        by (cases "error w (entry_warning i ex) False p1")
      from validate_entries_step_handled[OF init[unfolded Inl] True, of i es out] er Cons.prems
      have "validate_entries w (Suc i) es out p2 = (Inr ms, p')"
        by (cases r2) (simp_all add: seq_def)
      from Cons.IH[OF this] nacc show ?thesis by simp
    qed
  qed
qed

lemma rejected_warning_printable:
  assumes "tag_checkable e" and "tag_printable w e" and "ModInfo_init w e p = (Inl ex, p1)"
  shows "handled ex \<and> can_encode (stdout_encodes w) (exn_text ex)"
proof -
  note r = ModInfo_init_rejected[OF assms(1,3), of "stdout_encodes w"]
  from r have h: "handled ex" by blast
  have "can_encode (stdout_encodes w) (exn_text ex)"
  proof (cases ex)
    case (ValueError msg)
    with r have "truthy (type_tag e)" "py_in (lit ''NexusDownloader'') (type_tag e) = Inr False"
      and "msg = lit ''Unsupported download type '' @ py_str (container_repr w) (type_tag e)"
      by blast+
    with assms(2) ValueError show ?thesis by (simp add: tag_printable_def)
  next
    case (UnicodeEncodeError msg)
    with r obtain l where "msg = lit (String.explode l)" by blast
    with UnicodeEncodeError show ?thesis by simp
  next
    case (AttributeError msg)
    with r show ?thesis by simp
  qed (use h in simp_all)
  with h show ?thesis by blast
qed

lemma validate_entries_completes:
  assumes "list_all (\<lambda>e. tag_checkable e \<and> tag_printable w e) es"
  shows "\<exists>p'. validate_entries w i es out p = (Inr (out @ map entry_record (filter accepts es)), p')"
  using assms
proof (induction es arbitrary: i out p)
  case Nil
  then show ?case by simp
next
  case (Cons e es)
  then have chk: "tag_checkable e" and prt: "tag_printable w e"
    and rest: "list_all (\<lambda>e. tag_checkable e \<and> tag_printable w e) es" by simp_all
  obtain r p1 where init: "ModInfo_init w e p = (r, p1)" by (cases "ModInfo_init w e p")
  show ?case
  proof (cases r)
    case (Inr m)
    with init have acc: "accepts e" by (auto dest: ModInfo_init_Inr)
    with init Inr have m: "m = entry_record e" by (simp add: ModInfo_init_accepts)
    from Cons.IH[OF rest, of "Suc i" "out @ [m]" p1] init Inr acc m show ?thesis by simp
  next
    case (Inl ex)
    with init have nacc: "\<not> accepts e" by (auto simp: ModInfo_init_accepts)
    from rejected_warning_printable[OF chk prt init[unfolded Inl]]
    have "handled ex" and "can_encode (stdout_encodes w) (exn_text ex)" by simp_all
    from validate_entries_step_reported[OF init[unfolded Inl] this, of i es out]
      Cons.IH[OF rest, of "Suc i" out "printed (error_line (entry_warning i ex)) p1"] nacc
    show ?thesis by simp
  qed
qed

lemma validate_entries_uncheckable:
  "\<not> list_all tag_checkable es \<Longrightarrow> \<exists>e p'. validate_entries w i es out p = (Inl e, p')"
proof (induction es arbitrary: i out p)
  case Nil
  then show ?case by simp
next
  case (Cons e es)
  show ?case
  proof (cases "tag_checkable e")
    case False
    from ModInfo_init_uncheckable[OF False, of w p] obtain msg
      where init: "ModInfo_init w e p = (Inl (TypeError msg), p)" by blast
    from validate_entries_step_unhandled[OF init, of i es out] show ?thesis by simp
  next
    case True
    with Cons.prems have rest: "\<not> list_all tag_checkable es" by simp
    obtain r p1 where init: "ModInfo_init w e p = (r, p1)" by (cases "ModInfo_init w e p")
    show ?thesis
    proof (cases r)
      case (Inr m)
      from Cons.IH[OF rest, of "Suc i" "out @ [m]" p1] init Inr show ?thesis by simp
    next
      case (Inl ex)
      show ?thesis
      proof (cases "handled ex")
        case False
        from validate_entries_step_unhandled[OF init[unfolded Inl] False, of i es out]
        show ?thesis by simp
      next
        case h: True
        obtain r2 p2 where er: "error w (entry_warning i ex) False p1 = (r2, p2)"
          by (cases "error w (entry_warning i ex) False p1")
        from validate_entries_step_handled[OF init[unfolded Inl] h, of i es out] er
          Cons.IH[OF rest, of "Suc i" out p2]
        show ?thesis by (cases r2) (auto simp: seq_def)
      qed
    qed
  qed
qed

section \<open>Writing files\<close>

lemma append_last_snoc [simp]: "append_last t (xs @ [(path, c)]) = xs @ [(path, c @ t)]"
proof (induction xs)
  case Nil
  then show ?case by simp
next
  case (Cons a xs)
  then show ?case by (cases xs) auto
qed

lemma write_all_eq:
  "written p = xs @ [(path, c)] \<Longrightarrow>
   write_all w ts p =
     (case dropWhile (can_encode (file_encodes w)) ts of
        [] \<Rightarrow> Inr ()
      | t # rest \<Rightarrow> Inl (UnicodeEncodeError (lit (String.explode (file_error w t)))),
      p\<lparr>written := xs @ [(path, c @ concat (takeWhile (can_encode (file_encodes w)) ts))]\<rparr>)"
proof (induction ts arbitrary: p c)
  case Nil
  then show ?case by simp
next
  case (Cons t ts)
  show ?case
  proof (cases "can_encode (file_encodes w) t")
    case False
    with Cons.prems show ?thesis by simp
  next
    case True
    have "written (p\<lparr>written := append_last t (written p)\<rparr>) = xs @ [(path, c @ t)]"
      using Cons.prems by simp
    from Cons.IH[OF this] True show ?thesis by simp
  qed
qed

lemma write_file_eq:
  "write_file w path texts p =
     (if \<not> can_open w path then (Inl (open_error w path), p)
      else (case dropWhile (can_encode (file_encodes w)) texts of
              [] \<Rightarrow> Inr ()
            | t # rest \<Rightarrow> Inl (UnicodeEncodeError (lit (String.explode (file_error w t)))),
            p\<lparr>written := written p @ [(path, concat (takeWhile (can_encode (file_encodes w)) texts))]\<rparr>))"
proof (cases "can_open w path")
  case False
  then show ?thesis
    by (auto simp: write_file_def py_open_def can_open_def open_error_def split: option.splits)
next
  case True
  then have "py_open w path p = (Inr (), p\<lparr>written := written p @ [(path, [])]\<rparr>)"
    by (simp add: py_open_def can_open_def)
  moreover have "written (p\<lparr>written := written p @ [(path, [])]\<rparr>) = written p @ [(path, [])]"
    by simp
  ultimately show ?thesis
    using True write_all_eq[of "p\<lparr>written := written p @ [(path, [])]\<rparr>" "written p" path "[]" w texts]
    by (simp add: write_file_def)
qed

lemma write_file_ok:
  "can_open w path \<Longrightarrow> list_all (can_encode (file_encodes w)) texts \<Longrightarrow>
   write_file w path texts p = (Inr (), p\<lparr>written := written p @ [(path, concat texts)]\<rparr>)"
proof -
  assume o: "can_open w path" and a: "list_all (can_encode (file_encodes w)) texts"
  from a have d: "dropWhile (can_encode (file_encodes w)) texts = []"
    and t: "takeWhile (can_encode (file_encodes w)) texts = texts"
    by (simp_all add: list_all_iff)
  show ?thesis unfolding write_file_eq d t using o by simp
qed


lemma entry_block_spec: "entry_block cr mods = spec_block cr mods"
  by (rule ext) (simp add: entry_block_def spec_block_def heading_def spec_url_def url_def mod_url_def)

section \<open>Evaluation rules\<close>

lemmas eval_simps = ModInfo_init_def dict_get_def Let_def show_int_def show_nat.simps
  apostrophe_def newline_def lit_def can_encode_def print1_def print3_def uncaught_def
  error_line_def info_line_def printed_def RED_def BLUE_def RESET_def

lemmas run_simps = run_def main_def check_requirements_def extract_modlist_def load_and_process_def
  load_modlist_def process_manifest_def dump_temp_def get_archives_def write_output_def
  write_file_def py_open_def is_file_def
  entry_block_def url_def mod_url_def
  seq_def fail_if_def fatal_def error_def info_def raise_def
  MODLIST_FILENAME_def world_with_def

lemmas entry_defs = foo_entry_def baz_entry_def other_entry_def array_tag_entry_def
  numeric_tag_entry_def bool_tag_entry_def surrogate_tag_entry_def falsy_entry_def falsy_entry2_def
  nexus_entry_def archives_of_def

section \<open>Writing the output\<close>

text \<open>
  Claim C2. For every accepted record the URL written for it is
  \<^verbatim>\<open>https://www.nexusmods.com/{game}/mods/{mod_id}?tab=files&file_id={file_id}\<close> when the
  mod-level flag is false and \<^verbatim>\<open>https://www.nexusmods.com/{game}/mods/{mod_id}\<close> when it is
  true, each field formatted as \<^verbatim>\<open>str\<close> formats it. Writing the output is writing, record
  by record, the block the specification describes: the heading line, that URL and an
  empty line. Where the output path can be opened, the file holds these blocks up to the
  first one its codec cannot encode, and all of them, the write succeeding, when every
  block can be encoded; and the two properties \<^verbatim>\<open>url\<close> and \<^verbatim>\<open>mod_url\<close> are the two
  forms of the URL.
\<close>

theorem written_url_format:
  "write_output w ms p =
     uncaught (write_file w (output_path w)
                 (map (spec_block (container_repr w) (use_mods w)) ms) p)
   \<and> (can_open w (output_path w) \<longrightarrow>
        written (snd (write_output w ms p)) =
          written p @
            [(output_path w,
              concat (takeWhile (can_encode (file_encodes w))
                        (map (spec_block (container_repr w) (use_mods w)) ms)))])
   \<and> (can_open w (output_path w)
        \<and> list_all (\<lambda>m. can_encode (file_encodes w) (spec_block (container_repr w) (use_mods w) m)) ms
       \<longrightarrow> write_output w ms p =
             (Inr (), p\<lparr>written := written p @
                  [(output_path w, concat (map (spec_block (container_repr w) (use_mods w)) ms))]\<rparr>))
   \<and> url cr m = spec_url False (py_str cr (game m)) (py_str cr (mod_id m)) (py_str cr (file_id m))
   \<and> mod_url cr m = spec_url True (py_str cr (game m)) (py_str cr (mod_id m)) (py_str cr (file_id m))"
proof (intro conjI impI)
  show "write_output w ms p =
     uncaught (write_file w (output_path w)
                 (map (spec_block (container_repr w) (use_mods w)) ms) p)"
    by (simp add: write_output_def entry_block_spec)
next
  assume "can_open w (output_path w)"
  then show "written (snd (write_output w ms p)) =
          written p @
            [(output_path w,
              concat (takeWhile (can_encode (file_encodes w))
                        (map (spec_block (container_repr w) (use_mods w)) ms)))]"
    by (simp add: write_output_def entry_block_spec write_file_eq uncaught_def split: list.splits)
next
  assume "can_open w (output_path w)
        \<and> list_all (\<lambda>m. can_encode (file_encodes w) (spec_block (container_repr w) (use_mods w) m)) ms"
  then have "can_open w (output_path w)"
    and "list_all (can_encode (file_encodes w)) (map (spec_block (container_repr w) (use_mods w)) ms)"
    by (simp_all add: list_all_iff)
  then show "write_output w ms p =
             (Inr (), p\<lparr>written := written p @
                  [(output_path w, concat (map (spec_block (container_repr w) (use_mods w)) ms))]\<rparr>)"
    by (simp add: write_output_def entry_block_spec write_file_ok uncaught_def)
next
  show "url cr m = spec_url False (py_str cr (game m)) (py_str cr (mod_id m)) (py_str cr (file_id m))"
    by (simp add: url_def spec_url_def)
next
  show "mod_url cr m = spec_url True (py_str cr (game m)) (py_str cr (mod_id m)) (py_str cr (file_id m))"
    by (simp add: mod_url_def spec_url_def)
qed

theorem written_url_format_witness:
  "url (container_repr (world_with JNull)) (entry_record foo_entry)
     = lit ''https://www.nexusmods.com/skyrimspecialedition/mods/2?tab=files&file_id=1''
   \<and> mod_url (container_repr (world_with JNull)) (entry_record foo_entry)
     = lit ''https://www.nexusmods.com/skyrimspecialedition/mods/2''
   \<and> write_output (world_with JNull) [entry_record foo_entry, entry_record baz_entry] start
     = (Inr (),
        \<lparr>stdout = [],
         written = [(lit ''mods.txt'',
            lit ''## '' @ apostrophe @ lit ''Foo'' @ apostrophe @ lit '' by Bar'' @ newline
              @ lit ''https://www.nexusmods.com/skyrimspecialedition/mods/2?tab=files&file_id=1''
              @ newline @ newline
            @ lit ''## '' @ apostrophe @ lit ''Baz'' @ apostrophe @ lit '' by Qux'' @ newline
              @ lit ''https://www.nexusmods.com/fallout4/mods/8?tab=files&file_id=7''
              @ newline @ newline)]\<rparr>)
   \<and> write_output ((world_with JNull)\<lparr>use_mods := True\<rparr>) [entry_record foo_entry] start
     = (Inr (),
        \<lparr>stdout = [],
         written = [(lit ''mods.txt'',
            lit ''## '' @ apostrophe @ lit ''Foo'' @ apostrophe @ lit '' by Bar'' @ newline
              @ lit ''https://www.nexusmods.com/skyrimspecialedition/mods/2'' @ newline @ newline)]\<rparr>)"
proof -
  let ?w = "world_with JNull"
  let ?v = "(world_with JNull)\<lparr>use_mods := True\<rparr>"
  have o: "can_open ?w (output_path ?w)" "can_open ?v (output_path ?v)"
    by (simp_all add: can_open_def world_with_def lit_def)
  have e1: "list_all (\<lambda>m. can_encode (file_encodes ?w) (spec_block (container_repr ?w) (use_mods ?w) m))
              [entry_record foo_entry, entry_record baz_entry]"
    by (simp add: spec_block_def heading_def spec_url_def entry_record_def state_record_def
        entry_defs world_with_def eval_simps)
  have e2: "list_all (\<lambda>m. can_encode (file_encodes ?v) (spec_block (container_repr ?v) (use_mods ?v) m))
              [entry_record foo_entry]"
    by (simp add: spec_block_def heading_def spec_url_def entry_record_def state_record_def
        entry_defs world_with_def eval_simps)
  from written_url_format[of ?w "[entry_record foo_entry, entry_record baz_entry]" start
          "container_repr ?w" "entry_record foo_entry"] o e1
  have a: "write_output ?w [entry_record foo_entry, entry_record baz_entry] start =
             (Inr (), start\<lparr>written := written start @
                  [(output_path ?w, concat (map (spec_block (container_repr ?w) (use_mods ?w))
                      [entry_record foo_entry, entry_record baz_entry]))]\<rparr>)"
    and u: "url (container_repr ?w) (entry_record foo_entry)
              = spec_url False (py_str (container_repr ?w) (game (entry_record foo_entry)))
                  (py_str (container_repr ?w) (mod_id (entry_record foo_entry)))
                  (py_str (container_repr ?w) (file_id (entry_record foo_entry)))"
    and m: "mod_url (container_repr ?w) (entry_record foo_entry)
              = spec_url True (py_str (container_repr ?w) (game (entry_record foo_entry)))
                  (py_str (container_repr ?w) (mod_id (entry_record foo_entry)))
                  (py_str (container_repr ?w) (file_id (entry_record foo_entry)))"
    by blast+
  from written_url_format[of ?v "[entry_record foo_entry]" start
          "container_repr ?w" "entry_record foo_entry"] o e2
  have b: "write_output ?v [entry_record foo_entry] start =
             (Inr (), start\<lparr>written := written start @
                  [(output_path ?v, concat (map (spec_block (container_repr ?v) (use_mods ?v))
                      [entry_record foo_entry]))]\<rparr>)"
    by blast
  show ?thesis
    unfolding a b u m
    by (simp add: spec_block_def heading_def spec_url_def entry_record_def state_record_def
        entry_defs world_with_def start_def dict_get_def show_int_def show_nat.simps lit_def
        apostrophe_def newline_def)
qed

section \<open>The checks before the manifest is read\<close>

lemma print3_json_load: "print3 (w\<lparr>json_load := f\<rparr>) = print3 w"
  by (intro ext) (simp add: print3_def)

lemma info_json_load: "info (w\<lparr>json_load := f\<rparr>) = info w"
  by (intro ext) (simp add: info_def print3_json_load)

lemma fail_if_json_load: "fail_if (w\<lparr>json_load := f\<rparr>) = fail_if w"
  by (intro ext) (simp add: fail_if_def fatal_def print3_json_load)

lemma check_requirements_json_load:
  "check_requirements (w\<lparr>json_load := f\<rparr>) = check_requirements w"
  by (simp add: check_requirements_def fail_if_json_load info_json_load is_file_def)

lemma extract_modlist_none:
  assumes "filter (\<lambda>x. filename x = lit ''modlist'') (zip_filelist w) = []"
  shows "extract_modlist w p =
           (Inl (SystemExit 1), printed (error_line (lit ''The input file does not contain a modlist file'')) p)"
  using assms by (simp add: extract_modlist_def MODLIST_FILENAME_def fatal_ok)

lemma extract_modlist_many:
  assumes "2 \<le> length (filter (\<lambda>x. filename x = lit ''modlist'') (zip_filelist w))"
  shows "extract_modlist w p =
           (Inl (SystemExit 1), printed (error_line (lit ''Got more than one modlist file'')) p)"
proof (cases "filter (\<lambda>x. filename x = lit ''modlist'') (zip_filelist w)")
  case Nil
  with assms show ?thesis by simp
next
  case (Cons x others)
  with assms have "others \<noteq> []" by auto
  with Cons show ?thesis
    by (simp add: extract_modlist_def MODLIST_FILENAME_def seq_def fail_if_def fatal_ok)
qed

text \<open>
  Claim C6. The manifest is looked up by exact, case-sensitive equality of an entry's
  name with \<^verbatim>\<open>modlist\<close>. Once the requirement checks have passed, an archive with no
  such entry ends the run with status 1 and the message that the input contains no
  modlist file, and an archive with two or more such entries ends it with status 1 and the
  message that there is more than one; in both cases whatever \<^verbatim>\<open>json.load\<close> would
  do is irrelevant: nothing is parsed.
\<close>

theorem manifest_lookup:
  assumes "check_requirements w p = (Inr (), p1)"
  shows "(filter (\<lambda>x. filename x = lit ''modlist'') (zip_filelist w) = [] \<longrightarrow>
            (\<forall>f. main (w\<lparr>json_load := f\<rparr>) p =
                   (Inl (SystemExit 1),
                    printed (error_line (lit ''The input file does not contain a modlist file'')) p1)))
       \<and> (2 \<le> length (filter (\<lambda>x. filename x = lit ''modlist'') (zip_filelist w)) \<longrightarrow>
            (\<forall>f. main (w\<lparr>json_load := f\<rparr>) p =
                   (Inl (SystemExit 1),
                    printed (error_line (lit ''Got more than one modlist file'')) p1)))"
proof (intro conjI impI allI)
  fix f
  assume none: "filter (\<lambda>x. filename x = lit ''modlist'') (zip_filelist w) = []"
  have req: "check_requirements (w\<lparr>json_load := f\<rparr>) p = (Inr (), p1)"
    using assms by (simp add: check_requirements_json_load)
  have "extract_modlist (w\<lparr>json_load := f\<rparr>) p1 =
          (Inl (SystemExit 1),
           printed (error_line (lit ''The input file does not contain a modlist file'')) p1)"
    using none by (intro extract_modlist_none) simp
  then show "main (w\<lparr>json_load := f\<rparr>) p =
      (Inl (SystemExit 1),
       printed (error_line (lit ''The input file does not contain a modlist file'')) p1)"
    using req by (simp add: main_def seq_def)
next
  fix f
  assume many: "2 \<le> length (filter (\<lambda>x. filename x = lit ''modlist'') (zip_filelist w))"
  have req: "check_requirements (w\<lparr>json_load := f\<rparr>) p = (Inr (), p1)"
    using assms by (simp add: check_requirements_json_load)
  have "extract_modlist (w\<lparr>json_load := f\<rparr>) p1 =
          (Inl (SystemExit 1), printed (error_line (lit ''Got more than one modlist file'')) p1)"
    using many by (intro extract_modlist_many) simp
  then show "main (w\<lparr>json_load := f\<rparr>) p =
      (Inl (SystemExit 1), printed (error_line (lit ''Got more than one modlist file'')) p1)"
    using req by (simp add: main_def seq_def)
qed

lemma requirements_world_with:
  "check_requirements ((world_with m)\<lparr>zip_filelist := zs\<rparr>) start =
     (Inr (), \<lparr>stdout = [info_line (lit ''Trying to use file list.wabbajack''),
                          info_line (lit ''Successfully checked requirements'')],
               written = []\<rparr>)"
  by (simp add: check_requirements_def world_with_def seq_def fail_if_def info_def is_file_def
      start_def eval_simps)

theorem manifest_lookup_witness:
  "main misnamed_world start =
     (Inl (SystemExit 1),
      \<lparr>stdout = [info_line (lit ''Trying to use file list.wabbajack''),
                 info_line (lit ''Successfully checked requirements''),
                 error_line (lit ''The input file does not contain a modlist file'')],
       written = []\<rparr>)
   \<and> main doubled_world start =
     (Inl (SystemExit 1),
      \<lparr>stdout = [info_line (lit ''Trying to use file list.wabbajack''),
                 info_line (lit ''Successfully checked requirements''),
                 error_line (lit ''Got more than one modlist file'')],
       written = []\<rparr>)"
proof -
  let ?p1 = "\<lparr>stdout = [info_line (lit ''Trying to use file list.wabbajack''),
                        info_line (lit ''Successfully checked requirements'')],
             written = []\<rparr>"
  have r1: "check_requirements misnamed_world start = (Inr (), ?p1)"
    unfolding misnamed_world_def by (rule requirements_world_with)
  have r2: "check_requirements doubled_world start = (Inr (), ?p1)"
    unfolding doubled_world_def by (rule requirements_world_with)
  have n1: "filter (\<lambda>x. filename x = lit ''modlist'') (zip_filelist misnamed_world) = []"
    by (simp add: misnamed_world_def lit_def)
  have n2: "2 \<le> length (filter (\<lambda>x. filename x = lit ''modlist'') (zip_filelist doubled_world))"
    by (simp add: doubled_world_def lit_def)
  from manifest_lookup[OF r1] n1
  have "main (misnamed_world\<lparr>json_load := json_load misnamed_world\<rparr>) start =
          (Inl (SystemExit 1),
           printed (error_line (lit ''The input file does not contain a modlist file'')) ?p1)"
    by blast
  then have m1: "main misnamed_world start =
          (Inl (SystemExit 1),
           printed (error_line (lit ''The input file does not contain a modlist file'')) ?p1)"
    by simp
  from manifest_lookup[OF r2] n2
  have "main (doubled_world\<lparr>json_load := json_load doubled_world\<rparr>) start =
          (Inl (SystemExit 1), printed (error_line (lit ''Got more than one modlist file'')) ?p1)"
    by blast
  then have m2: "main doubled_world start =
          (Inl (SystemExit 1), printed (error_line (lit ''Got more than one modlist file'')) ?p1)"
    by simp
  show ?thesis
    unfolding m1 m2 by (simp add: printed_def)
qed

section \<open>From the parsed manifest to the output file\<close>

lemma written_wrote [simp]: "written (wrote path t p) = written p @ [(path, t)]"
  by (simp add: wrote_def)

lemma stdout_wrote [simp]: "stdout (wrote path t p) = stdout p"
  by (simp add: wrote_def)


lemma dump_temp_eq:
  "dump_temp w data p =
     (if can_open w (lit ''temp'')
      then (Inr (), wrote (lit ''temp'') (lit (String.explode (json_dumps w data))) p)
      else (Inl (Uncaught (open_error w (lit ''temp''))), p))"
  by (simp add: dump_temp_def write_file_eq uncaught_def wrote_def)

lemma get_archives_dict:
  "get_archives w (JObj d) p =
     (let archives = dict_get d (lit ''Archives'') in
      if archives = JNull
      then (Inl (SystemExit 1), printed (error_line (lit ''Failed to get archives data from modlist'')) p)
      else if \<not> truthy archives
      then (Inl (SystemExit 1), printed (error_line (lit ''No archives defined in modlist'')) p)
      else (case py_len archives of
              Inl ex \<Rightarrow> (Inl (Uncaught ex), p)
            | Inr n \<Rightarrow> (Inr (py_iter archives),
                        printed (info_line (lit ''Got '' @ lit (show_nat n) @ lit '' in modlist'')) p)))"
  by (simp add: get_archives_def seq_def fail_if_def fatal_ok info_ok raise_def Let_def
      split: sum.splits)





section \<open>How a run can end\<close>

lemma fails1_Inr [simp]: "fails1 (Inr a, p)"
  by (simp add: fails1_def)

lemma fails1_uncaught [simp]: "fails1 (uncaught r)"
  by (cases r) (auto simp: fails1_def uncaught_def split: sum.splits)

lemma fails1_raise [simp]: "fails1 (raise ex p)"
  by (simp add: fails1_def raise_def)

lemma fails1_exit1 [simp]: "fails1 (Inl (SystemExit (Suc 0)), p)"
  by (simp add: fails1_def)

lemma fails1_seq:
  assumes "fails1 (m p)" and "\<And>a p1. fails1 (f a p1)"
  shows "fails1 (seq m f p)"
proof (cases "m p")
  case (Pair r p1)
  show ?thesis
  proof (cases r)
    case (Inl e)
    with Pair assms(1) show ?thesis by (simp add: seq_def fails1_def)
  next
    case (Inr a)
    with Pair assms(2)[of a p1] show ?thesis by (simp add: seq_def)
  qed
qed

lemma fails1_info [simp]: "fails1 (info w msg p)"
  by (simp add: info_def)

lemma fails1_fatal [simp]: "fails1 (fatal w msg p)"
  unfolding fatal_def by (rule fails1_seq) simp_all

lemma fails1_error [simp]: "fails1 (error w msg b p)"
  unfolding error_def by (rule fails1_seq) simp_all

lemma fails1_fail_if [simp]: "fails1 (fail_if w c msg p)"
  by (simp add: fail_if_def)

lemma fails1_check_requirements [simp]: "fails1 (check_requirements w p)"
  unfolding check_requirements_def by (intro fails1_seq) simp_all

lemma fails1_extract_modlist [simp]: "fails1 (extract_modlist w p)"
  unfolding extract_modlist_def Let_def
  by (cases "filter (\<lambda>x. filename x = MODLIST_FILENAME) (zip_filelist w)")
     (simp_all add: fails1_seq)

lemma fails1_load_modlist [simp]: "fails1 (load_modlist w t p)"
  unfolding load_modlist_def
  by (cases "json_load w t") (simp_all add: fails1_seq)

lemma fails1_get_archives [simp]: "fails1 (get_archives w data p)"
  unfolding get_archives_def
  by (cases "py_get data (lit ''Archives'')")
     (auto intro!: fails1_seq split: sum.splits)

lemma fails1_validate_entries [simp]: "fails1 (validate_entries w i es out p)"
proof (induction es arbitrary: i out p)
  case Nil
  then show ?case by simp
next
  case (Cons e es)
  obtain r p1 where init: "ModInfo_init w e p = (r, p1)" by (cases "ModInfo_init w e p")
  show ?case
  proof (cases r)
    case (Inr m)
    with init Cons.IH[of "Suc i" "out @ [m]" p1] show ?thesis by simp
  next
    case (Inl ex)
    show ?thesis
    proof (cases "handled ex")
      case False
      from validate_entries_step_unhandled[OF init[unfolded Inl] False, of i es out]
      show ?thesis by (simp add: fails1_def)
    next
      case True
      have "fails1 (seq (error w (entry_warning i ex) False)
                      (\<lambda>_. validate_entries w (Suc i) es out) p1)"
        by (rule fails1_seq) (simp_all add: Cons.IH)
      with validate_entries_step_handled[OF init[unfolded Inl] True, of i es out]
      show ?thesis by simp
    qed
  qed
qed

lemma fails1_process_manifest [simp]: "fails1 (process_manifest w data p)"
  unfolding process_manifest_def
  by (intro fails1_seq) (simp_all add: dump_temp_def write_output_def)













lemma written_get_archives [simp]: "written (snd (get_archives w data p)) = written p"
proof (cases data)
  case (JObj d)
  then show ?thesis by (simp add: get_archives_dict Let_def split: sum.splits)
qed (simp_all add: get_archives_def raise_def)





section \<open>An output path that already exists\<close>




section \<open>Which entries become records\<close>

lemma process_manifest_reaches_write:
  assumes "can_open w (lit ''temp'')" and "dict_get d (lit ''Archives'') = JArr es" and "es \<noteq> []"
    and "list_all (\<lambda>e. tag_checkable e \<and> tag_printable w e) es"
  shows "\<exists>p2. process_manifest w (JObj d) p
                = write_output w (map entry_record (filter accepts es)) p2
             \<and> written p2 = written p @ [(lit ''temp'', lit (String.explode (json_dumps w (JObj d))))]"
proof -
  let ?p0 = "wrote (lit ''temp'') (lit (String.explode (json_dumps w (JObj d)))) p"
  let ?p1 = "printed (info_line (lit ''Got '' @ lit (show_nat (length es)) @ lit '' in modlist'')) ?p0"
  from assms(1) have dt: "dump_temp w (JObj d) p = (Inr (), ?p0)" by (simp add: dump_temp_eq)
  from assms(2,3) have ga: "get_archives w (JObj d) ?p0 = (Inr es, ?p1)"
    by (simp add: get_archives_dict)
  from validate_entries_completes[OF assms(4), of 0 "[]" ?p1]
  obtain p2 where ve: "validate_entries w 0 es [] ?p1
                     = (Inr (map entry_record (filter accepts es)), p2)"
    by auto
  have "written p2 = written ?p1" using validate_entries_written[of w 0 es "[]" ?p1] ve by simp
  with dt ga ve show ?thesis
    by (auto simp: process_manifest_def seq_def)
qed

text \<open>
  Claim C1, as the code has it. A record is built for an entry exactly when the entry
  is an object with a truthy State object whose \<^verbatim>\<open>$type\<close> is truthy and satisfies
  \<^verbatim>\<open>"NexusDownloader" in $type\<close> (a substring of a string, an element of a list, a key
  of a dict) and whose five fields are present and not null. Take a list of entries
  whose \<^verbatim>\<open>$type\<close>, where it is truthy, is a string, a list or a dict, and, where it
  lacks the marker, is a text standard output can encode. Then every entry that fails
  these conditions raises an error the loop catches, with a message standard output can
  encode; the loop returns exactly the records of the accepted entries, in order, and
  opens no file; and, where the file \<^verbatim>\<open>temp\<close> can be opened, the program goes on to write
  the output for these records.
\<close>

theorem constructed_iff_accepts:
  assumes "list_all (\<lambda>e. tag_checkable e \<and> tag_printable w e) es"
  shows "(\<forall>e p. (\<exists>m p'. ModInfo_init w e p = (Inr m, p')) = accepts e)
       \<and> (\<forall>e \<in> set es. \<not> accepts e \<longrightarrow>
            (\<forall>p. \<exists>ex p'. ModInfo_init w e p = (Inl ex, p') \<and> handled ex
                           \<and> can_encode (stdout_encodes w) (exn_text ex)))
       \<and> (\<exists>p'. validate_entries w i es out p
                  = (Inr (out @ map entry_record (filter accepts es)), p')
               \<and> written p' = written p)
       \<and> (es \<noteq> [] \<and> can_open w (lit ''temp'') \<longrightarrow>
            (\<forall>d p. dict_get d (lit ''Archives'') = JArr es \<longrightarrow>
               (\<exists>p2. process_manifest w (JObj d) p
                       = write_output w (map entry_record (filter accepts es)) p2
                     \<and> written p2
                       = written p @ [(lit ''temp'', lit (String.explode (json_dumps w (JObj d))))])))"
proof (intro conjI allI ballI impI)
  fix e p
  show "(\<exists>m p'. ModInfo_init w e p = (Inr m, p')) = accepts e"
    by (rule ModInfo_init_iff)
next
  fix e p
  assume mem: "e \<in> set es" and rej: "\<not> accepts e"
  from mem assms have chk: "tag_checkable e" and prt: "tag_printable w e"
    by (simp_all add: list_all_iff)
  obtain r p' where init: "ModInfo_init w e p = (r, p')" by (cases "ModInfo_init w e p")
  with rej obtain ex where r: "r = Inl ex"
    by (cases r) (auto dest: ModInfo_init_Inr)
  from rejected_warning_printable[OF chk prt init[unfolded r]] init r
  show "\<exists>ex p'. ModInfo_init w e p = (Inl ex, p') \<and> handled ex
                  \<and> can_encode (stdout_encodes w) (exn_text ex)"
    by blast
next
  from validate_entries_completes[OF assms, of i out p]
  obtain p' where v: "validate_entries w i es out p
                        = (Inr (out @ map entry_record (filter accepts es)), p')"
    by blast
  have "written p' = written p" using validate_entries_written[of w i es out p] v by simp
  with v show "\<exists>p'. validate_entries w i es out p
                  = (Inr (out @ map entry_record (filter accepts es)), p')
               \<and> written p' = written p"
    by blast
next
  fix d p
  assume "es \<noteq> [] \<and> can_open w (lit ''temp'')" and "dict_get d (lit ''Archives'') = JArr es"
  with process_manifest_reaches_write[of w d es p] assms
  show "\<exists>p2. process_manifest w (JObj d) p
               = write_output w (map entry_record (filter accepts es)) p2
             \<and> written p2
               = written p @ [(lit ''temp'', lit (String.explode (json_dumps w (JObj d))))]"
    by blast
qed

theorem constructed_iff_accepts_witness:
  "tag_checkable foo_entry \<and> tag_checkable other_entry \<and> tag_checkable array_tag_entry
   \<and> tag_checkable (JInt 3)
   \<and> tag_printable (world_with JNull) other_entry
   \<and> accepts foo_entry \<and> \<not> accepts other_entry \<and> accepts array_tag_entry \<and> \<not> accepts (JInt 3)
   \<and> (\<exists>p'. validate_entries (world_with JNull) 0
              [foo_entry, other_entry, array_tag_entry, JInt 3] [] start
            = (Inr [entry_record foo_entry, entry_record array_tag_entry], p')
          \<and> written p' = [])
   \<and> (\<exists>p2. process_manifest (world_with JNull)
              (archives_of [foo_entry, other_entry, array_tag_entry, JInt 3]) start
            = write_output (world_with JNull)
                [entry_record foo_entry, entry_record array_tag_entry] p2
          \<and> written p2 = [(lit ''temp'', lit ''(dump)'')])"
proof -
  let ?w = "world_with JNull"
  let ?es = "[foo_entry, other_entry, array_tag_entry, JInt 3]"
  have chk: "list_all (\<lambda>e. tag_checkable e \<and> tag_printable ?w e) ?es"
    by (simp add: tag_checkable_def tag_printable_def type_tag_def entry_defs dict_get_def
        world_with_def lit_def can_encode_def)
  have acc: "accepts foo_entry \<and> \<not> accepts other_entry \<and> accepts array_tag_entry \<and> \<not> accepts (JInt 3)"
    by (simp add: accepts_def entry_defs dict_get_def required_fields_def lit_def)
  have tmp: "?es \<noteq> [] \<and> can_open ?w (lit ''temp'')"
    by (simp add: can_open_def world_with_def)
  have ar: "dict_get [(lit ''Archives'', JArr ?es)] (lit ''Archives'') = JArr ?es"
    by (simp add: dict_get_def)
  have dmp: "lit (String.explode (json_dumps ?w v)) = lit ''(dump)''" for v
    by (simp add: world_with_def)
  have st: "written start = []" by (simp add: start_def)
  note th = constructed_iff_accepts[OF chk, of 0 "[]" start]
  from th have "\<exists>p'. validate_entries ?w 0 ?es [] start
                          = (Inr ([] @ map entry_record (filter accepts ?es)), p')
                        \<and> written p' = written start"
    by blast
  with acc have v: "\<exists>p'. validate_entries ?w 0 ?es [] start
                          = (Inr [entry_record foo_entry, entry_record array_tag_entry], p')
                        \<and> written p' = []"
    by (simp add: st del: validate_entries.simps)
  from th tmp ar
  have "\<exists>p2. process_manifest ?w (JObj [(lit ''Archives'', JArr ?es)]) start
                  = write_output ?w (map entry_record (filter accepts ?es)) p2
                \<and> written p2 = written start @ [(lit ''temp'',
                     lit (String.explode (json_dumps ?w (JObj [(lit ''Archives'', JArr ?es)]))))]"
    by blast
  with acc have m: "\<exists>p2. process_manifest ?w (archives_of ?es) start
                  = write_output ?w [entry_record foo_entry, entry_record array_tag_entry] p2
                \<and> written p2 = [(lit ''temp'', lit ''(dump)'')]"
    by (simp add: st dmp archives_of_def)
  from chk have c: "tag_checkable foo_entry \<and> tag_checkable other_entry
      \<and> tag_checkable array_tag_entry \<and> tag_checkable (JInt 3) \<and> tag_printable ?w other_entry"
    by simp
  from v m c acc show ?thesis
    by blast
qed

text \<open>
  Claim C1, as stated, fails: an entry whose \<^verbatim>\<open>$type\<close> is the list
  \<^verbatim>\<open>["NexusDownloader"]\<close> gets a record although its \<^verbatim>\<open>$type\<close> is no string containing
  the marker, and an entry whose \<^verbatim>\<open>$type\<close> is the number 1 fails the stated conditions
  and ends the whole run with an uncaught \<^verbatim>\<open>TypeError\<close>.
\<close>

theorem ModInfo_claim_counterexample:
  "fst (ModInfo_init (world_with JNull) array_tag_entry start) = Inr (entry_record array_tag_entry)
   \<and> \<not> claimed_condition array_tag_entry
   \<and> \<not> claimed_condition numeric_tag_entry
   \<and> run (world_with (archives_of [array_tag_entry, numeric_tag_entry]))
       = (Uncaught (TypeError (lit ''argument of type '' @ apostrophe @ lit ''int'' @ apostrophe
                               @ lit '' is not iterable'')),
          \<lparr>stdout = [info_line (lit ''Trying to use file list.wabbajack''),
                     info_line (lit ''Successfully checked requirements''),
                     info_line (lit ''Successfully parsed modlist''),
                     info_line (lit ''Got 2 in modlist'')],
           written = [(lit ''temp'', lit ''(dump)'')]\<rparr>)
   \<and> exit_status (fst (run (world_with (archives_of [array_tag_entry, numeric_tag_entry])))) = 1"
  by (simp add: run_simps entry_defs eval_simps claimed_condition_def entry_record_def
      state_record_def required_fields_def start_def)

lemma fields_present_iff:
  "list_all (\<lambda>k. map_of s k \<noteq> None \<and> map_of s k \<noteq> Some JNull) required_fields
     = list_all (\<lambda>k. dict_get s k \<noteq> JNull) required_fields"
  by (auto simp: required_fields_def dict_get_def split: option.splits)

text \<open>
  With the Nexus tag in place, the five lookups decide: the record is built exactly when
  every key is bound to something other than \<^verbatim>\<open>None\<close>, whatever its truth value. An
  entry that lacks a field has its State printed and raises the error for a missing
  attribute, or the \<^verbatim>\<open>UnicodeEncodeError\<close> of the print.
\<close>

lemma required_fields_decide:
  assumes "dict_get d (lit ''State'') = JObj s"
    and "truthy (dict_get s (lit ''$type''))"
    and "py_in (lit ''NexusDownloader'') (dict_get s (lit ''$type'')) = Inr True"
  shows "(list_all (\<lambda>k. map_of s k \<noteq> None \<and> map_of s k \<noteq> Some JNull) required_fields \<longrightarrow>
            ModInfo_init w (JObj d) p = (Inr (state_record s), p))
       \<and> (\<not> list_all (\<lambda>k. map_of s k \<noteq> None \<and> map_of s k \<noteq> Some JNull) required_fields \<longrightarrow>
            ModInfo_init w (JObj d) p =
              (if can_encode (stdout_encodes w) (py_str (container_repr w) (JObj s))
               then (Inl (AttributeError (lit ''The entry is missing a required attribute'')),
                     printed (py_str (container_repr w) (JObj s)) p)
               else (Inl (UnicodeEncodeError
                            (lit (String.explode (stdout_error w (py_str (container_repr w) (JObj s)))))),
                     p)))"
proof (intro conjI impI)
  assume "list_all (\<lambda>k. map_of s k \<noteq> None \<and> map_of s k \<noteq> Some JNull) required_fields"
  then have "list_all (\<lambda>k. dict_get s k \<noteq> JNull) required_fields"
    using fields_present_iff[of s] by blast
  with assms show "ModInfo_init w (JObj d) p = (Inr (state_record s), p)"
    by (auto simp: ModInfo_init_def Let_def state_record_def required_fields_def dict_get_Nil)
next
  assume "\<not> list_all (\<lambda>k. map_of s k \<noteq> None \<and> map_of s k \<noteq> Some JNull) required_fields"
  then have "\<not> list_all (\<lambda>k. dict_get s k \<noteq> JNull) required_fields"
    using fields_present_iff[of s] by blast
  with assms show "ModInfo_init w (JObj d) p =
              (if can_encode (stdout_encodes w) (py_str (container_repr w) (JObj s))
               then (Inl (AttributeError (lit ''The entry is missing a required attribute'')),
                     printed (py_str (container_repr w) (JObj s)) p)
               else (Inl (UnicodeEncodeError
                            (lit (String.explode (stdout_error w (py_str (container_repr w) (JObj s)))))),
                     p))"
    by (auto simp: ModInfo_init_def Let_def required_fields_def dict_get_Nil print1_def printed_def)
qed

section \<open>Runs on concrete manifests\<close>

text \<open>
  Claim C3 does not hold of the code. The first entry of this manifest has the
  unsupported \<^verbatim>\<open>$type\<close> 1. The membership test raises a \<^verbatim>\<open>TypeError\<close>, which the loop
  does not catch: no warning is printed for the entry, the second, well-formed entry is
  never validated, the output file is not written, and the exit status is 1.
\<close>

theorem numeric_tag_aborts_run:
  "run (world_with (archives_of [numeric_tag_entry, foo_entry])) =
     (Uncaught (TypeError (lit ''argument of type '' @ apostrophe @ lit ''int'' @ apostrophe
                           @ lit '' is not iterable'')),
      \<lparr>stdout = [info_line (lit ''Trying to use file list.wabbajack''),
                 info_line (lit ''Successfully checked requirements''),
                 info_line (lit ''Successfully parsed modlist''),
                 info_line (lit ''Got 2 in modlist'')],
       written = [(lit ''temp'', lit ''(dump)'')]\<rparr>)
   \<and> exit_status (fst (run (world_with (archives_of [numeric_tag_entry, foo_entry])))) = 1"
  by (simp add: run_simps entry_defs eval_simps)

text \<open>
  Claim C10 does not hold of the code. The only entry of this manifest fails validation,
  its \<^verbatim>\<open>$type\<close> being \<^verbatim>\<open>true\<close>; the run ends with an uncaught \<^verbatim>\<open>TypeError\<close> and status
  1, and no output file is created.
\<close>

theorem all_entries_failing_aborts_run:
  "fst (ModInfo_init (world_with JNull) bool_tag_entry start)
     = Inl (TypeError (lit ''argument of type '' @ apostrophe @ lit ''bool'' @ apostrophe
                       @ lit '' is not iterable''))
   \<and> run (world_with (archives_of [bool_tag_entry])) =
     (Uncaught (TypeError (lit ''argument of type '' @ apostrophe @ lit ''bool'' @ apostrophe
                           @ lit '' is not iterable'')),
      \<lparr>stdout = [info_line (lit ''Trying to use file list.wabbajack''),
                 info_line (lit ''Successfully checked requirements''),
                 info_line (lit ''Successfully parsed modlist''),
                 info_line (lit ''Got 1 in modlist'')],
       written = [(lit ''temp'', lit ''(dump)'')]\<rparr>)
   \<and> exit_status (fst (run (world_with (archives_of [bool_tag_entry])))) = 1"
  by (simp add: run_simps entry_defs eval_simps)

text \<open>
  Claim C5 does not hold of the code. On the manifest of the specification's example the
  run finishes having opened two files for writing: the file \<^verbatim>\<open>temp\<close> in the working
  directory, holding the dump of the manifest, and then the output file.
\<close>

theorem run_also_writes_temp:
  "run (world_with (archives_of [foo_entry, other_entry])) =
     (Finished,
      \<lparr>stdout = [info_line (lit ''Trying to use file list.wabbajack''),
                 info_line (lit ''Successfully checked requirements''),
                 info_line (lit ''Successfully parsed modlist''),
                 info_line (lit ''Got 2 in modlist''),
                 error_line (lit ''Error for entry 1: Unsupported download type OtherDownloader'')],
       written = [(lit ''temp'', lit ''(dump)''),
                  (lit ''mods.txt'',
                   lit ''## '' @ apostrophe @ lit ''Foo'' @ apostrophe @ lit '' by Bar'' @ newline
                     @ lit ''https://www.nexusmods.com/skyrimspecialedition/mods/2?tab=files&file_id=1''
                     @ newline @ newline)]\<rparr>)"
  by (simp add: run_simps entry_defs eval_simps)

text \<open>
  Claim C4 does not hold of the code. The first entry of this manifest passes validation
  and its record is built; the second has the \<^verbatim>\<open>$type\<close> 1, whose membership test raises
  the \<^verbatim>\<open>TypeError\<close> the loop does not catch. The run ends with status 1 before the
  output file is opened: there is no block for the entry that passed.
\<close>

theorem passing_entry_gets_no_block:
  "ModInfo_init (world_with JNull) foo_entry start = (Inr (entry_record foo_entry), start)
   \<and> run (world_with (archives_of [foo_entry, numeric_tag_entry])) =
     (Uncaught (TypeError (lit ''argument of type '' @ apostrophe @ lit ''int'' @ apostrophe
                           @ lit '' is not iterable'')),
      \<lparr>stdout = [info_line (lit ''Trying to use file list.wabbajack''),
                 info_line (lit ''Successfully checked requirements''),
                 info_line (lit ''Successfully parsed modlist''),
                 info_line (lit ''Got 2 in modlist'')],
       written = [(lit ''temp'', lit ''(dump)'')]\<rparr>)
   \<and> exit_status (fst (run (world_with (archives_of [foo_entry, numeric_tag_entry])))) = 1"
  by (simp add: run_simps entry_defs eval_simps entry_record_def state_record_def)

text \<open>
  Claim C9 does not hold of the code. An entry with the Nexus tag, an empty Name and the
  FileID 0 passes validation and its record is built; in a run that reaches the write,
  its block and that of an entry with an empty Author and GameName and the ModID 0 are
  written. Followed by an entry whose \<^verbatim>\<open>$type\<close> is the number 1, the same entry does not
  appear in any output: the uncaught \<^verbatim>\<open>TypeError\<close> ends the run before the output file
  is opened.
\<close>

theorem falsy_record_never_written:
  "ModInfo_init (world_with JNull) falsy_entry start
     = (Inr \<lparr>name = JStr [], author = JStr (lit ''Bar''), file_id = JInt 0, mod_id = JInt 2,
             game = JStr (lit ''skyrimspecialedition'')\<rparr>, start)
   \<and> run (world_with (archives_of [falsy_entry, falsy_entry2])) =
     (Finished,
      \<lparr>stdout = [info_line (lit ''Trying to use file list.wabbajack''),
                 info_line (lit ''Successfully checked requirements''),
                 info_line (lit ''Successfully parsed modlist''),
                 info_line (lit ''Got 2 in modlist'')],
       written = [(lit ''temp'', lit ''(dump)''),
                  (lit ''mods.txt'',
                   lit ''## '' @ apostrophe @ apostrophe @ lit '' by Bar'' @ newline
                     @ lit ''https://www.nexusmods.com/skyrimspecialedition/mods/2?tab=files&file_id=0''
                     @ newline @ newline
                   @ lit ''## '' @ apostrophe @ lit ''Foo'' @ apostrophe @ lit '' by '' @ newline
                     @ lit ''https://www.nexusmods.com//mods/0?tab=files&file_id=1''
                     @ newline @ newline)]\<rparr>)
   \<and> run (world_with (archives_of [falsy_entry, numeric_tag_entry])) =
     (Uncaught (TypeError (lit ''argument of type '' @ apostrophe @ lit ''int'' @ apostrophe
                           @ lit '' is not iterable'')),
      \<lparr>stdout = [info_line (lit ''Trying to use file list.wabbajack''),
                 info_line (lit ''Successfully checked requirements''),
                 info_line (lit ''Successfully parsed modlist''),
                 info_line (lit ''Got 2 in modlist'')],
       written = [(lit ''temp'', lit ''(dump)'')]\<rparr>)"
  by (simp add: run_simps entry_defs eval_simps)

text \<open>
  A string \<^verbatim>\<open>$type\<close> that standard output cannot encode, here the lone surrogate U+D800:
  the warning for the entry cannot be printed, and the \<^verbatim>\<open>UnicodeEncodeError\<close> raised
  inside the handler ends the run, after the colour code has been written.
\<close>

lemma unprintable_tag_aborts_run:
  "tag_checkable surrogate_tag_entry \<and> \<not> tag_printable (world_with JNull) surrogate_tag_entry
   \<and> run (world_with (archives_of [foo_entry, surrogate_tag_entry, baz_entry])) =
   (Uncaught (UnicodeEncodeError (lit ''utf-8 codec cannot encode character: surrogates not allowed'')),
    \<lparr>stdout = [info_line (lit ''Trying to use file list.wabbajack''),
               info_line (lit ''Successfully checked requirements''),
               info_line (lit ''Successfully parsed modlist''),
               info_line (lit ''Got 3 in modlist''),
               RED @ lit '' ''],
     written = [(lit ''temp'', lit ''(dump)'')]\<rparr>)"
  by (simp add: run_simps entry_defs eval_simps tag_checkable_def tag_printable_def type_tag_def)

text \<open>
  When every entry fails with an error the loop catches, the run finishes and leaves an
  empty output file.
\<close>

lemma caught_failures_leave_empty_output:
  "run (world_with (archives_of [other_entry, JInt 3])) =
     (Finished,
      \<lparr>stdout = [info_line (lit ''Trying to use file list.wabbajack''),
                 info_line (lit ''Successfully checked requirements''),
                 info_line (lit ''Successfully parsed modlist''),
                 info_line (lit ''Got 2 in modlist''),
                 error_line (lit ''Error for entry 0: Unsupported download type OtherDownloader''),
                 error_line (lit ''Error for entry 1: '' @ apostrophe @ lit ''int'' @ apostrophe
                             @ lit '' object has no attribute '' @ apostrophe @ lit ''get''
                             @ apostrophe)],
       written = [(lit ''temp'', lit ''(dump)''), (lit ''mods.txt'', [])]\<rparr>)"
  by (simp add: run_simps entry_defs eval_simps no_attribute_get_def)

end
